theory Spec2Isabelle
  imports Complex_Main "HOL-Library.Word" "HOL-Library.Sublist"
begin

section \<open>Python values\<close>

text \<open>
  The cells of a pandas row and the values of a YAML document are Python objects. The
  program inspects their runtime type (\<^verbatim>\<open>type(x) == int\<close>), compares them with
  \<^verbatim>\<open>==\<close> and formats them, so a value carries its type as its constructor.
  A float is a rational, an infinity or NaN.
\<close>

datatype pyfloat = NaN | PInf | NInf | Fin rat

datatype pyval =
    PyNone
  | PyBool bool
  | PyInt int
  | PyFloat pyfloat
  | PyStr string
  | NpInt64 "64 word"
  | NpBool bool

datatype pytype = T_NoneType | T_bool | T_int | T_float | T_str | T_np_int64 | T_np_bool

fun type_of :: "pyval \<Rightarrow> pytype" where
  "type_of PyNone = T_NoneType"
| "type_of (PyBool b) = T_bool"
| "type_of (PyInt n) = T_int"
| "type_of (PyFloat f) = T_float"
| "type_of (PyStr s) = T_str"
| "type_of (NpInt64 w) = T_np_int64"
| "type_of (NpBool b) = T_np_bool"

text \<open>The number a value denotes, when it is numeric (\<^verbatim>\<open>True\<close> is 1, \<^verbatim>\<open>False\<close> is 0).\<close>

fun num_of :: "pyval \<Rightarrow> pyfloat option" where
  "num_of PyNone = None"
| "num_of (PyBool b) = Some (Fin (if b then 1 else 0))"
| "num_of (PyInt n) = Some (Fin (of_int n))"
| "num_of (PyFloat f) = Some f"
| "num_of (PyStr s) = None"
| "num_of (NpInt64 w) = Some (Fin (of_int (sint w)))"
| "num_of (NpBool b) = Some (Fin (if b then 1 else 0))"

text \<open>
  \<^verbatim>\<open>a == b\<close>: numbers are compared by value across bool, int and float, NaN equals
  nothing, and a string or None equals only itself. (The program compares only
  against \<^verbatim>\<open>True\<close>, \<^verbatim>\<open>False\<close> and an integral float below \<open>10^8\<close>, where numpy's
  comparison agrees with the exact one.)
\<close>

definition py_eq :: "pyval \<Rightarrow> pyval \<Rightarrow> bool" where
  "py_eq a b =
     (case (num_of a, num_of b) of
        (Some x, Some y) \<Rightarrow> x \<noteq> NaN \<and> x = y
      | (None, None) \<Rightarrow> a = b
      | _ \<Rightarrow> False)"

text \<open>Truthiness, as \<^verbatim>\<open>elif x:\<close> tests it.\<close>

fun truthy :: "pyval \<Rightarrow> bool" where
  "truthy PyNone = False"
| "truthy (PyBool b) = b"
| "truthy (PyInt n) = (n \<noteq> 0)"
| "truthy (PyFloat f) = (f \<noteq> Fin 0)"
| "truthy (PyStr s) = (s \<noteq> [])"
| "truthy (NpInt64 w) = (w \<noteq> 0)"
| "truthy (NpBool b) = b"

subsection \<open>Formatting integers\<close>

definition digit_char :: "nat \<Rightarrow> char" where
  "digit_char d = ''0123456789'' ! (d mod 10)"

fun digits :: "nat \<Rightarrow> string" where
  "digits n = (if n < 10 then [digit_char n] else digits (n div 10) @ [digit_char (n mod 10)])"

declare digits.simps [simp del]

text \<open>\<^verbatim>\<open>f"{n}"\<close> for an int.\<close>

definition str_int :: "int \<Rightarrow> string" where
  "str_int n = (if n < 0 then CHR ''-'' # digits (nat (- n)) else digits (nat n))"

text \<open>
  \<^verbatim>\<open>f"{n:02d}"\<close>: a minimum width of two, padded with zeros. Nothing is cut off: a
  longer number is printed in full.
\<close>

definition fmt_02d :: "int \<Rightarrow> string" where
  "fmt_02d n = (if 0 \<le> n \<and> n < 10 then CHR ''0'' # str_int n else str_int n)"

section \<open>Configuration records\<close>

text \<open>
  A site of \<^verbatim>\<open>ProjectSummary.yaml\<close>, with the keys the program reads. The
  \<^verbatim>\<open>ControlledEnvironment\<close> key holds whatever the YAML document holds.
\<close>

record site =
  site_name :: string
  site_year :: int
  ControlledEnvironment :: pyval

record projinfo =
  ShortName :: string
  sites :: "site list"

record node =
  node_name :: string
  SensorPlatforms :: "string list"

text \<open>
  A row of \<^verbatim>\<open>FieldLog.csv\<close>, in the column order of \<^verbatim>\<open>colnames\<close>.
\<close>

record fieldrow =
  Year :: pyval
  Month :: pyval
  Day :: pyval
  Sensor :: pyval
  Technician :: pyval
  Runs :: pyval
  Site :: pyval
  MakeNotesFile :: pyval
  CheckSum :: pyval

section \<open>Errors\<close>

text \<open>
  Every \<^verbatim>\<open>_ErrorMessage\<close> call raises a \<^verbatim>\<open>ValueError\<close> whose message holds the file
  name, the row and the text of the rule that failed; the cause names the call site.
\<close>

datatype cause =
    TypeMismatch string pytype
  | InvalidDate string
  | FutureDate
  | TooHistorical
  | UnknownSensor
  | InvalidRunCount
  | UnknownSite
  | SiteYearMismatch

datatype error =
    ValueError string fieldrow cause
  | SiteConfigError string pyval string
  | TypeError
  | BdbQuit
  | SystemExit
  | FileNotFoundError string
  | EmptyDataError string
  | KeyError string
  | FormatError pyval
  | MemoryError
  | ArangeError

section \<open>The site name\<close>

text \<open>\<^verbatim>\<open>x in [True, False]\<close> compares with \<^verbatim>\<open>==\<close>.\<close>

definition in_True_False :: "pyval \<Rightarrow> bool" where
  "in_True_False v = (py_eq v (PyBool True) \<or> py_eq v (PyBool False))"

definition sitenamemaker :: "site \<Rightarrow> string \<Rightarrow> error + string" where
  "sitenamemaker s psyl_fname =
     (let sitename = str_int (site_year s) @ site_name s in
      if ControlledEnvironment s \<noteq> PyNone then
        if \<not> in_True_False (ControlledEnvironment s) then
          Inl (SiteConfigError (site_name s) (ControlledEnvironment s) psyl_fname)
        else if truthy (ControlledEnvironment s) then Inr (sitename @ ''_C'')
        else Inr (sitename @ ''_F'')
      else Inr sitename)"

section \<open>The row validator\<close>

text \<open>
  What the validator takes from outside the repository: the pandas row hash (a series of
  unsigned 64-bit values, one per cell), the \<^verbatim>\<open>pd.Timestamp\<close> parser (an error text, or
  the instant in nanoseconds), the clock, the instant the module was imported (the default
  \<^verbatim>\<open>past_date\<close> is computed then), and what the operator does at a \<^verbatim>\<open>breakpoint()\<close>:
  resume (also when the breakpoint hook is disabled) or quit the debugger, which raises
  \<^verbatim>\<open>BdbQuit\<close>. The clock is read as one instant for the run. The remaining fields are
  the answers of the floating-point printer and of git: the log of \<^verbatim>\<open>git pull\<close>, the
  files of the HEAD commit, and the staged and unstaged differences, each given the paths
  added so far; and the answer of \<^verbatim>\<open>np.arange\<close> for a count beyond 100 in size, which
  depends on the memory and on how the platform computes the length of the array.
\<close>

record env =
  hash_pandas_object :: "pyval list \<Rightarrow> 64 word list"
  Timestamp :: "string \<Rightarrow> string + int"
  now :: int
  import_time :: int
  debugger_resume :: bool
  float_repr :: "pyfloat \<Rightarrow> string"
  pull_log :: string
  head_tree :: "string set"
  index_diff_HEAD :: "string list \<Rightarrow> string list"
  index_diff_None :: "string list \<Rightarrow> (string \<times> string \<times> string) list"
  np_arange_big :: "int \<Rightarrow> error + nat list"

definition hours :: "int \<Rightarrow> int" where
  "hours h = h * 3600 * 1000000000"

definition days :: "int \<Rightarrow> int" where
  "days d = hours (24 * d)"

definition default_past_date :: "env \<Rightarrow> int" where
  "default_past_date e = import_time e - days 14"

text \<open>\<^verbatim>\<open>flrow.drop("CheckSum")\<close>: the cells of the other columns, in order.\<close>

definition drop_CheckSum :: "fieldrow \<Rightarrow> pyval list" where
  "drop_CheckSum r =
     [Year r, Month r, Day r, Sensor r, Technician r, Runs r, Site r, MakeNotesFile r]"

text \<open>
  \<^verbatim>\<open>float(hashes.sum() % 100000000)\<close>: the unsigned 64-bit sum wraps around, and the
  remainder is an integral float below \<open>10^8\<close>.
\<close>

definition check_value :: "env \<Rightarrow> fieldrow \<Rightarrow> nat" where
  "check_value e r = unat (sum_list (hash_pandas_object e (drop_CheckSum r))) mod 100000000"

definition float_of_nat :: "nat \<Rightarrow> pyfloat" where
  "float_of_nat n = Fin (of_nat n)"

text \<open>
  \<^verbatim>\<open>np.isnan\<close> answers for a number and raises \<^verbatim>\<open>TypeError\<close> for a string, for None,
  and for an int that fits no 64-bit type.
\<close>

fun np_isnan :: "pyval \<Rightarrow> error + bool" where
  "np_isnan PyNone = Inl TypeError"
| "np_isnan (PyBool b) = Inr False"
| "np_isnan (PyInt n) =
     (if - (2 ^ 63) \<le> n \<and> n < 2 ^ 64 then Inr False else Inl TypeError)"
| "np_isnan (PyFloat f) = Inr (f = NaN)"
| "np_isnan (PyStr s) = Inl TypeError"
| "np_isnan (NpInt64 w) = Inr False"
| "np_isnan (NpBool b) = Inr False"

text \<open>
  Lines 524 to 536: the checksum that the rest of the function carries, or \<open>None\<close> when the
  stored one matches. On a mismatch the function prints, calls \<^verbatim>\<open>breakpoint()\<close> and, when
  the debugger resumes, goes on with the recomputed checksum.
\<close>

definition checksum_state :: "env \<Rightarrow> fieldrow \<Rightarrow> error + pyfloat option" where
  "checksum_state e flrow =
     (let check = float_of_nat (check_value e flrow) in
      case np_isnan (CheckSum flrow) of
        Inl err \<Rightarrow> Inl err
      | Inr True \<Rightarrow> Inr (Some check)
      | Inr False \<Rightarrow>
          if \<not> py_eq (PyFloat check) (CheckSum flrow) then
            if debugger_resume e then Inr (Some check) else Inl BdbQuit
          else Inr None)"

text \<open>Lines 538 to 545: the first column whose type is not exactly the expected one.\<close>

fun dtype_loop :: "pytype \<Rightarrow> (string \<times> pyval) list \<Rightarrow> cause option" where
  "dtype_loop t [] = None"
| "dtype_loop t ((vname, v) # rest) =
     (if type_of v \<noteq> t then Some (TypeMismatch vname (type_of v)) else dtype_loop t rest)"

definition check_dtypes :: "fieldrow \<Rightarrow> cause option" where
  "check_dtypes flrow =
     (case dtype_loop T_int
             [(''Year'', Year flrow), (''Month'', Month flrow), (''Day'', Day flrow),
              (''Runs'', Runs flrow)] of
        Some c \<Rightarrow> Some c
      | None \<Rightarrow>
          dtype_loop T_str
            [(''Technician'', Technician flrow), (''Sensor'', Sensor flrow),
             (''Site'', Site flrow)])"

text \<open>The value behind a cell whose type has been checked.\<close>

fun int_val :: "pyval \<Rightarrow> int" where
  "int_val (PyInt n) = n"
| "int_val (PyBool b) = (if b then 1 else 0)"
| "int_val (NpInt64 w) = sint w"
| "int_val (NpBool b) = (if b then 1 else 0)"
| "int_val v = 0"

fun str_val :: "pyval \<Rightarrow> string" where
  "str_val (PyStr s) = s"
| "str_val v = []"

text \<open>Line 550: the text handed to \<^verbatim>\<open>pd.Timestamp\<close>.\<close>

definition date_text :: "fieldrow \<Rightarrow> string" where
  "date_text flrow =
     str_int (int_val (Year flrow)) @ ''-'' @ str_int (int_val (Month flrow)) @ ''-'' @
     str_int (int_val (Day flrow))"

text \<open>Lines 554 to 561: skipped when the checksum matched.\<close>

definition date_bounds :: "env \<Rightarrow> pyfloat option \<Rightarrow> int \<Rightarrow> bool \<Rightarrow> int \<Rightarrow> cause option" where
  "date_bounds e check date historical past_date =
     (if check \<noteq> None then
        if date > now e + hours 12 then Some FutureDate
        else if date < past_date then
          if \<not> historical then Some TooHistorical else None
        else None
      else None)"

text \<open>\<^verbatim>\<open>prow[prow == True].index\<close>: the sensors whose cell equals \<^verbatim>\<open>True\<close>.\<close>

definition enabled_sensors :: "(string \<times> pyval) list \<Rightarrow> string list" where
  "enabled_sensors prow = map fst (filter (\<lambda>(k, v). py_eq v (PyBool True)) prow)"

text \<open>
  Lines 577 to 585: the first site with the row's name and the row's year; a site with the
  name and another year adds to the error log and the loop goes on.
\<close>

fun site_loop :: "site list \<Rightarrow> string \<Rightarrow> int \<Rightarrow> site option" where
  "site_loop [] nm y = None"
| "site_loop (s # rest) nm y =
     (if site_name s = nm then
        if site_year s \<noteq> y then site_loop rest nm y else Some s
      else site_loop rest nm y)"

text \<open>Lines 563 to 590: sensor, run count and site.\<close>

definition config_checks :: "fieldrow \<Rightarrow> (string \<times> pyval) list \<Rightarrow> projinfo \<Rightarrow> cause + site" where
  "config_checks flrow prow ProjectInfo =
     (if str_val (Sensor flrow) \<notin> set (enabled_sensors prow) then Inl UnknownSensor
      else if int_val (Runs flrow) < 1 then Inl InvalidRunCount
      else if str_val (Site flrow) \<notin> set (map site_name (sites ProjectInfo)) then Inl UnknownSite
      else case site_loop (sites ProjectInfo) (str_val (Site flrow)) (int_val (Year flrow)) of
             None \<Rightarrow> Inl SiteYearMismatch
           | Some outsite \<Rightarrow> Inr outsite)"

text \<open>Lines 538 to 590: the checks that follow, carrying \<open>check\<close>.\<close>

definition row_checks ::
  "env \<Rightarrow> string \<Rightarrow> fieldrow \<Rightarrow> (string \<times> pyval) list \<Rightarrow> projinfo \<Rightarrow> bool \<Rightarrow> int
     \<Rightarrow> pyfloat option \<Rightarrow> error + (pyfloat option \<times> site)" where
  "row_checks e flog_fname flrow prow ProjectInfo historical past_date check =
     (case check_dtypes flrow of
        Some c \<Rightarrow> Inl (ValueError flog_fname flrow c)
      | None \<Rightarrow>
          (case Timestamp e (date_text flrow) of
             Inl er \<Rightarrow> Inl (ValueError flog_fname flrow (InvalidDate er))
           | Inr date \<Rightarrow>
               (case date_bounds e check date historical past_date of
                  Some c \<Rightarrow> Inl (ValueError flog_fname flrow c)
                | None \<Rightarrow>
                    (case config_checks flrow prow ProjectInfo of
                       Inl c \<Rightarrow> Inl (ValueError flog_fname flrow c)
                     | Inr outsite \<Rightarrow> Inr (check, outsite)))))"

definition Rowchecker ::
  "env \<Rightarrow> string \<Rightarrow> fieldrow \<Rightarrow> (string \<times> pyval) list \<Rightarrow> projinfo \<Rightarrow> bool \<Rightarrow> int
     \<Rightarrow> error + (pyfloat option \<times> site)" where
  "Rowchecker e flog_fname flrow prow ProjectInfo historical past_date =
     (case checksum_state e flrow of
        Inl err \<Rightarrow> Inl err
      | Inr check \<Rightarrow> row_checks e flog_fname flrow prow ProjectInfo historical past_date check)"

section \<open>Tables\<close>

text \<open>
  A CSV file holds a header and rows of cells. A DataFrame in memory has row labels, column
  names and one list of cells per row, aligned with the column names.
\<close>

record table =
  header :: "string list"
  body :: "pyval list list"

record frame =
  index :: "pyval list"
  columns :: "string list"
  cells :: "pyval list list"

text \<open>\<^verbatim>\<open>df.empty\<close>: an axis of length 0.\<close>

definition empty_frame :: "frame \<Rightarrow> bool" where
  "empty_frame d = (columns d = [] \<or> cells d = [])"

text \<open>\<^verbatim>\<open>df.iterrows()\<close>: each label with its row as a series of named cells.\<close>

definition iterrows :: "frame \<Rightarrow> (pyval \<times> (string \<times> pyval) list) list" where
  "iterrows d = zip (index d) (map (\<lambda>r. zip (columns d) r) (cells d))"

text \<open>\<^verbatim>\<open>dfx[col] = fill_val\<close>: a new column, or every cell of an existing one.\<close>

definition setitem :: "frame \<Rightarrow> string \<Rightarrow> pyval \<Rightarrow> frame" where
  "setitem d col v =
     (if col \<in> set (columns d) then
        d\<lparr>cells := map (\<lambda>r. map (\<lambda>(c, x). if c = col then v else x) (zip (columns d) r)) (cells d)\<rparr>
      else d\<lparr>columns := columns d @ [col], cells := map (\<lambda>r. r @ [v]) (cells d)\<rparr>)"

text \<open>
  \<^verbatim>\<open>dfx[colnms]\<close>: for each requested name in turn, the columns of that name. (Every
  requested name is a column when the program selects: the missing ones were just added.)
\<close>

definition select_row :: "string list \<Rightarrow> string list \<Rightarrow> pyval list \<Rightarrow> pyval list" where
  "select_row cols colnms r =
     concat (map (\<lambda>c. map snd (filter (\<lambda>(n, x). n = c) (zip cols r))) colnms)"

definition getitem :: "frame \<Rightarrow> string list \<Rightarrow> frame" where
  "getitem d colnms =
     d\<lparr>columns := concat (map (\<lambda>c. filter (\<lambda>n. n = c) (columns d)) colnms),
       cells := map (select_row (columns d) colnms) (cells d)\<rparr>"

text \<open>\<^verbatim>\<open>df.loc[index, col] = v\<close> on the rows labelled \<open>index\<close>.\<close>

definition loc_set :: "frame \<Rightarrow> pyval \<Rightarrow> string \<Rightarrow> pyval \<Rightarrow> frame" where
  "loc_set d lbl col v =
     (if col \<in> set (columns d) then
        d\<lparr>cells := map (\<lambda>(l, r). if l = lbl
                                  then map (\<lambda>(c, x). if c = col then v else x) (zip (columns d) r)
                                  else r)
                       (zip (index d) (cells d))\<rparr>
      else
        d\<lparr>columns := columns d @ [col],
          cells := map (\<lambda>(l, r). r @ [if l = lbl then v else PyFloat NaN])
                       (zip (index d) (cells d))\<rparr>)"

text \<open>\<^verbatim>\<open>df.to_csv(fname, index=False)\<close>: the labels are not written.\<close>

definition to_table :: "frame \<Rightarrow> table" where
  "to_table d = \<lparr>header = columns d, body = cells d\<rparr>"

section \<open>Files, folders and git\<close>

record world =
  dirs :: "string list"
  touched :: "string list"
  csv :: "string \<rightharpoonup> table"
  yaml :: "string \<rightharpoonup> projinfo"
  nodes_yaml :: "string \<rightharpoonup> node list"
  staged :: "string list"
  commits :: nat

text \<open>
  A folder exists when it, or a folder below it, has been created; the working directory
  always exists. \<^verbatim>\<open>os.makedirs\<close> creates the folder and every missing folder above it; the
  folders are kept in the order of their creation.
\<close>

definition is_under :: "string \<Rightarrow> string \<Rightarrow> bool" where
  "is_under a p = (a = p \<or> (a \<noteq> [] \<and> prefix (a @ ''/'') p))"

definition ancestors :: "string \<Rightarrow> string list" where
  "ancestors p = filter (\<lambda>a. is_under a p) (prefixes p)"

definition path_exists :: "world \<Rightarrow> string \<Rightarrow> bool" where
  "path_exists w p = (p = ''.'' \<or> (\<exists>q \<in> set (dirs w). is_under p q))"

definition makedirs :: "string \<Rightarrow> world \<Rightarrow> world" where
  "makedirs p w = w\<lparr>dirs := dirs w @ filter (\<lambda>a. \<not> path_exists w a) (ancestors p)\<rparr>"

definition pymkdir :: "string \<Rightarrow> world \<Rightarrow> world" where
  "pymkdir p w = (if \<not> path_exists w p then makedirs p w else w)"

definition to_csv :: "frame \<Rightarrow> string \<Rightarrow> world \<Rightarrow> world" where
  "to_csv d fname w = w\<lparr>csv := (csv w)(fname \<mapsto> to_table d)\<rparr>"

text \<open>\<^verbatim>\<open>pd.read_csv(fname)\<close>: the rows are labelled 0, 1, 2 and so on.\<close>

definition read_csv :: "world \<Rightarrow> string \<Rightarrow> error + frame" where
  "read_csv w fname =
     (case csv w fname of
        None \<Rightarrow> Inl (FileNotFoundError fname)
      | Some t \<Rightarrow>
          if header t = [] then Inl (EmptyDataError fname)
          else Inr \<lparr>index = map (\<lambda>i. PyInt (int i)) [0..<length (body t)],
                    columns = header t, cells = body t\<rparr>)"

text \<open>\<^verbatim>\<open>pd.read_csv(fname, header=0, index_col=0)\<close>: the first column labels the rows.\<close>

definition read_csv_index0 :: "world \<Rightarrow> string \<Rightarrow> error + frame" where
  "read_csv_index0 w fname =
     (case csv w fname of
        None \<Rightarrow> Inl (FileNotFoundError fname)
      | Some t \<Rightarrow>
          (case header t of
             [] \<Rightarrow> Inl (EmptyDataError fname)
           | h # hs \<Rightarrow>
               Inr \<lparr>index = map (\<lambda>r. case r of [] \<Rightarrow> PyFloat NaN | x # xs \<Rightarrow> x) (body t),
                    columns = hs, cells = map tl (body t)\<rparr>))"

definition git_add :: "string \<Rightarrow> world \<Rightarrow> world" where
  "git_add fname w = w\<lparr>staged := staged w @ [fname]\<rparr>"

text \<open>\<^verbatim>\<open>path.replace("./", "")\<close>\<close>

fun remove_dotslash :: "string \<Rightarrow> string" where
  "remove_dotslash [] = []"
| "remove_dotslash [c] = [c]"
| "remove_dotslash (c # d # cs) =
     (if c = CHR ''.'' \<and> d = CHR ''/'' then remove_dotslash cs
      else c # remove_dotslash (d # cs))"

definition is_file_staged :: "env \<Rightarrow> world \<Rightarrow> string \<Rightarrow> bool" where
  "is_file_staged e w filepath =
     (remove_dotslash filepath \<in> set (index_diff_HEAD e (staged w)))"

definition fileInRepo :: "env \<Rightarrow> string \<Rightarrow> bool" where
  "fileInRepo e filePathIN = (remove_dotslash filePathIN \<in> head_tree e)"

text \<open>
  \<^verbatim>\<open>GitChanged\<close>: the first unstaged difference on the file decides; only a modification
  is added.
\<close>

definition GitChanged :: "env \<Rightarrow> string \<Rightarrow> bool \<Rightarrow> world \<Rightarrow> bool \<times> world" where
  "GitChanged e fname gitmod w =
     (let (gitmod1, w1) = (if \<not> fileInRepo e fname then (True, git_add fname w) else (gitmod, w))
      in case find (\<lambda>(a_path, b_path, change_type).
                      a_path = remove_dotslash fname \<or> b_path = remove_dotslash fname)
                   (index_diff_None e (staged w1)) of
           None \<Rightarrow> (gitmod1, w1)
         | Some (a_path, b_path, change_type) \<Rightarrow>
             if change_type = ''M'' then (True, git_add fname w1) else (gitmod1, w1))"

definition GitPull :: "env \<Rightarrow> error option" where
  "GitPull e =
     (if pull_log e \<noteq> ''Already up to date.'' then
        Some (if debugger_resume e then SystemExit else BdbQuit)
      else None)"

section \<open>The schema reconciler\<close>

text \<open>
  \<^verbatim>\<open>_df_col_check\<close>. The test \<^verbatim>\<open>missing_cols == {}\<close> compares a set with a dict and is
  never true, so whenever the columns differ from the required ones the frame is completed,
  reordered and written. The missing columns are added in the order of the required list
  (Python iterates the set in an order of its own; the reordering that follows hides it).
\<close>

definition missing_cols :: "frame \<Rightarrow> string list \<Rightarrow> string list" where
  "missing_cols dfx colnms = filter (\<lambda>c. c \<notin> set (columns dfx)) (remdups colnms)"

definition df_col_check ::
  "env \<Rightarrow> frame \<Rightarrow> string \<Rightarrow> string list \<Rightarrow> bool \<Rightarrow> bool \<Rightarrow> pyval \<Rightarrow> world
     \<Rightarrow> (frame \<times> bool) \<times> world" where
  "df_col_check e dfx fname colnms no_git gitmod fill_val w =
     (let (dfx1, gitmod1, w1) =
            (if columns dfx \<noteq> colnms then
               let dfxa = getitem (fold (\<lambda>col d. setitem d col fill_val) (missing_cols dfx colnms) dfx)
                                  colnms;
                   wa = to_csv dfxa fname w
               in if \<not> no_git then (dfxa, True, git_add fname wa) else (dfxa, gitmod, wa)
             else (dfx, gitmod, w))
      in if \<not> no_git \<and> \<not> (fileInRepo e fname \<or> is_file_staged e w1 fname)
         then ((dfx1, True), git_add fname w1)
         else ((dfx1, gitmod1), w1))"

section \<open>The folders of a field day\<close>

record args =
  no_git :: bool
  projectsYAML :: string
  historical :: bool

text \<open>\<^verbatim>\<open>f"{v}"\<close>\<close>

fun py_str :: "env \<Rightarrow> pyval \<Rightarrow> string" where
  "py_str e PyNone = ''None''"
| "py_str e (PyBool b) = (if b then ''True'' else ''False'')"
| "py_str e (PyInt n) = str_int n"
| "py_str e (PyFloat f) = float_repr e f"
| "py_str e (PyStr s) = s"
| "py_str e (NpInt64 w) = str_int (sint w)"
| "py_str e (NpBool b) = (if b then ''True'' else ''False'')"

text \<open>\<^verbatim>\<open>f"{v:02d}"\<close>: only an integer takes the format code.\<close>

fun fmt_02d_val :: "pyval \<Rightarrow> error + string" where
  "fmt_02d_val (PyInt n) = Inr (fmt_02d n)"
| "fmt_02d_val (PyBool b) = Inr (fmt_02d (if b then 1 else 0))"
| "fmt_02d_val (NpInt64 w) = Inr (fmt_02d (sint w))"
| "fmt_02d_val (NpBool b) = Inr (fmt_02d (if b then 1 else 0))"
| "fmt_02d_val v = Inl (FormatError v)"

text \<open>Line 136: \<^verbatim>\<open>f"{frow.Year:02d}{frow.Month:02d}{frow.Day:02d}"\<close>\<close>

definition day_name :: "fieldrow \<Rightarrow> error + string" where
  "day_name frow =
     (case fmt_02d_val (Year frow) of
        Inl err \<Rightarrow> Inl err
      | Inr y \<Rightarrow>
          (case fmt_02d_val (Month frow) of
             Inl err \<Rightarrow> Inl err
           | Inr m \<Rightarrow>
               (case fmt_02d_val (Day frow) of
                  Inl err \<Rightarrow> Inl err
                | Inr d \<Rightarrow> Inr (y @ m @ d))))"

text \<open>
  \<^verbatim>\<open>np.arange(n)\<close> for an integer count: the numbers from 0 up to \<open>n - 1\<close> when numpy
  makes the array, none for a count that is not positive. An array of at most 100 numbers
  is always made. For any other count the answer is numpy's: the numbers, an error when
  the array cannot be allocated or its length cannot be computed, or an empty array when
  the computed length overflows (as for \<open>2^63 - 1\<close>).
\<close>

definition np_arange :: "env \<Rightarrow> int \<Rightarrow> error + nat list" where
  "np_arange e n = (if - 100 \<le> n \<and> n \<le> 100 then Inr [0..<nat n] else np_arange_big e n)"

text \<open>
  \<^verbatim>\<open>np.arange(frow.Runs)\<close>, as far as the loop can format its numbers: the run numbers of
  an integer count; the numbers of a float count are floats, and the first
  \<^verbatim>\<open>{runNo:02d}\<close> fails on them.
\<close>

fun run_numbers :: "env \<Rightarrow> pyval \<Rightarrow> error + nat list" where
  "run_numbers e (PyInt n) = np_arange e n"
| "run_numbers e (PyBool b) = Inr [0..<(if b then 1 else 0)]"
| "run_numbers e (NpInt64 w) = np_arange e (sint w)"
| "run_numbers e (NpBool b) = Inr [0..<(if b then 1 else 0)]"
| "run_numbers e (PyFloat (Fin q)) =
     (case np_arange e \<lceil>q\<rceil> of
        Inl err \<Rightarrow> Inl err
      | Inr [] \<Rightarrow> Inr []
      | Inr (k # ks) \<Rightarrow> Inl (FormatError (PyFloat (Fin q))))"
| "run_numbers e (PyFloat f) = Inl ArangeError"
| "run_numbers e v = Inl TypeError"

definition tiers :: "string list" where
  "tiers = [''Tier0_raw'', ''Tier1_proc'', ''Tier2_traits'']"

text \<open>Lines 138 to 140: the tier folders, in the order the loops reach them.\<close>

definition run_paths :: "string \<Rightarrow> nat list \<Rightarrow> string list" where
  "run_paths folder runs =
     concat (map (\<lambda>runNo. map (\<lambda>fldr. folder @ ''/run_'' @ fmt_02d (int runNo) @ ''/'' @ fldr) tiers)
                 runs)"

text \<open>Line 131: the sensor folder of a site; line 144: the notes file of a day folder.\<close>

definition sensor_folder :: "env \<Rightarrow> node \<Rightarrow> pyval \<Rightarrow> string \<Rightarrow> fieldrow \<Rightarrow> string" where
  "sensor_folder e nd project sitename frow =
     ''./'' @ node_name nd @ ''/'' @ py_str e project @ ''/'' @ sitename @ ''/'' @
     py_str e (Sensor frow)"

definition notes_file :: "string \<Rightarrow> string" where
  "notes_file folder = folder @ ''/FieldNotes.txt''"

text \<open>\<^verbatim>\<open>pathlib.Path(p).touch()\<close> needs the folder of the file.\<close>

definition touch :: "string \<Rightarrow> world \<Rightarrow> world" where
  "touch p w = w\<lparr>touched := touched w @ [p]\<rparr>"

definition Sitebuilder ::
  "env \<Rightarrow> string \<Rightarrow> frame \<Rightarrow> pyval \<Rightarrow> fieldrow \<Rightarrow> pyfloat option \<Rightarrow> site \<Rightarrow> pyval \<Rightarrow> node
     \<Rightarrow> bool \<Rightarrow> bool \<Rightarrow> world \<Rightarrow> (error + (frame \<times> bool)) \<times> world" where
  "Sitebuilder e flog_fname df_flog idx frow check st project nd nogit gitmod w =
     (case sitenamemaker st [] of
        Inl err \<Rightarrow> (Inl err, w)
      | Inr sitename \<Rightarrow>
          (let w1 = pymkdir (sensor_folder e nd project sitename frow) w
           in case day_name frow of
                Inl err \<Rightarrow> (Inl err, w1)
              | Inr dname \<Rightarrow>
                  (let folder = sensor_folder e nd project sitename frow @ ''/'' @ dname
                   in case run_numbers e (Runs frow) of
                        Inl err \<Rightarrow> (Inl err, w1)
                      | Inr runs \<Rightarrow>
                          (let w2 = fold pymkdir (run_paths folder runs) w1
                           in if py_eq (MakeNotesFile frow) (PyBool True) \<and> \<not> path_exists w2 folder
                              then (Inl (FileNotFoundError (notes_file folder)), w2)
                              else
                                (let w3 = (if py_eq (MakeNotesFile frow) (PyBool True)
                                           then touch (notes_file folder) w2 else w2)
                                 in case check of
                                      None \<Rightarrow> (Inr (df_flog, gitmod), w3)
                                    | Some c \<Rightarrow>
                                        (let df1 = loc_set df_flog idx ''CheckSum'' (PyFloat c);
                                             w4 = to_csv df1 flog_fname w3
                                         in if \<not> nogit then (Inr (df1, True), git_add flog_fname w4)
                                            else (Inr (df1, gitmod), w4)))))))"

section \<open>Projects and nodes\<close>

text \<open>The template that \<^verbatim>\<open>_projYAML\<close> writes for a new project: one placeholder site.\<close>

definition project_template :: "string \<Rightarrow> projinfo" where
  "project_template project =
     \<lparr>ShortName = project,
      sites = [\<lparr>site_name = [], site_year = - 9999, ControlledEnvironment = PyNone\<rparr>]\<rparr>"

definition projYAML ::
  "env \<Rightarrow> string \<Rightarrow> string \<Rightarrow> bool \<Rightarrow> bool \<Rightarrow> world \<Rightarrow> (projinfo \<times> bool) \<times> world" where
  "projYAML e project pym_fn nogit gitmod w =
     (let (Proj_data, gitmod1, w1) =
            (case yaml w pym_fn of
               None \<Rightarrow>
                 (let wa = w\<lparr>yaml := (yaml w)(pym_fn \<mapsto> project_template project)\<rparr>
                  in if \<not> nogit then (project_template project, True, git_add pym_fn wa)
                     else (project_template project, gitmod, wa))
             | Some d \<Rightarrow> (d, gitmod, w))
      in if \<not> nogit then
           (let (gitmod2, w2) = GitChanged e pym_fn gitmod1 w1 in ((Proj_data, gitmod2), w2))
         else ((Proj_data, gitmod1), w1))"

text \<open>Lines 225 to 237: the folders of every site that is not a placeholder.\<close>

fun site_folders ::
  "string \<Rightarrow> string \<Rightarrow> site list \<Rightarrow> string list \<Rightarrow> world \<Rightarrow> (error + string list) \<times> world" where
  "site_folders proj_dir psyl_fname [] Site_names w = (Inr Site_names, w)"
| "site_folders proj_dir psyl_fname (s # rest) Site_names w =
     (if site_name s \<noteq> [] \<and> site_year s \<noteq> - 9999 then
        (case sitenamemaker s psyl_fname of
           Inl err \<Rightarrow> (Inl err, w)
         | Inr sitename \<Rightarrow>
             site_folders proj_dir psyl_fname rest (Site_names @ [sitename])
               (fold pymkdir
                  [proj_dir @ ''/'' @ sitename,
                   proj_dir @ ''/'' @ sitename @ ''/Documentation'',
                   proj_dir @ ''/'' @ sitename @ ''/Code''] w))
      else site_folders proj_dir psyl_fname rest Site_names w)"

definition projBuilder ::
  "env \<Rightarrow> pyval \<Rightarrow> node \<Rightarrow> string list \<Rightarrow> bool \<Rightarrow> bool \<Rightarrow> world
     \<Rightarrow> (error + (frame \<times> bool \<times> string \<times> string list \<times> projinfo)) \<times> world" where
  "projBuilder e project nd colnames nogit gitmod w =
     (let proj_dir = ''./'' @ node_name nd @ ''/'' @ py_str e project;
          w1 = fold pymkdir [proj_dir @ ''/Documentation'', proj_dir @ ''/Code''] w;
          psyl_fname = proj_dir @ ''/ProjectSummary.yaml'';
          ((ProjectInfo, gitmod1), w2) = projYAML e (py_str e project) psyl_fname nogit gitmod w1;
          flog_fname = proj_dir @ ''/FieldLog.csv'';
          (loaded, w3) =
            (if csv w2 flog_fname = None then
               (let wa = to_csv \<lparr>index = [], columns = colnames, cells = []\<rparr> flog_fname w2;
                    (gitmoda, wb) = (if \<not> nogit then (True, git_add flog_fname wa) else (gitmod1, wa))
                in (case read_csv wb flog_fname of
                      Inl err \<Rightarrow> Inl err
                    | Inr df_flog \<Rightarrow> Inr (df_flog, gitmoda), wb))
             else
               (case read_csv w2 flog_fname of
                  Inl err \<Rightarrow> (Inl err, w2)
                | Inr df_flog \<Rightarrow>
                    (let (r, wc) = df_col_check e df_flog flog_fname colnames nogit gitmod1 PyNone w2
                     in (Inr r, wc))))
      in case loaded of
           Inl err \<Rightarrow> (Inl err, w3)
         | Inr (df_flog, gitmod2) \<Rightarrow>
             (case site_folders proj_dir psyl_fname (sites ProjectInfo) [] w3 of
                (Inl err, w4) \<Rightarrow> (Inl err, w4)
              | (Inr Site_names, w4) \<Rightarrow>
                  (Inr (df_flog, gitmod2, flog_fname, Site_names, ProjectInfo), w4)))"

definition NodeChecker ::
  "env \<Rightarrow> bool \<Rightarrow> node \<Rightarrow> bool \<Rightarrow> world \<Rightarrow> (error + (frame \<times> bool)) \<times> world" where
  "NodeChecker e nogit nd gitmod w =
     (let w1 = pymkdir (''./'' @ node_name nd) w;
          pfilename = ''./'' @ node_name nd @ ''/'' @ node_name nd @ ''_ProjectsSummary.csv'';
          (gitmod1, w2) =
            (if csv w1 pfilename = None then
               (let wa = to_csv \<lparr>index = [], columns = ''Project'' # SensorPlatforms nd, cells = []\<rparr>
                           pfilename w1
                in if \<not> nogit then (True, git_add pfilename wa) else (gitmod, wa))
             else (gitmod, w1))
      in case read_csv_index0 w2 pfilename of
           Inl err \<Rightarrow> (Inl err, w2)
         | Inr df0 \<Rightarrow>
             (let ((df, gitmod2), w3) =
                    df_col_check e df0 pfilename (SensorPlatforms nd) nogit gitmod1 (PyBool False) w2
              in if \<not> nogit then
                   (let (gitmod3, w4) = GitChanged e pfilename gitmod2 w3 in (Inr (df, gitmod3), w4))
                 else (Inr (df, gitmod2), w3)))"

section \<open>The run\<close>

definition colnames :: "string list" where
  "colnames = [''Year'', ''Month'', ''Day'', ''Sensor'', ''Technician'', ''Runs'', ''Site'',
               ''MakeNotesFile'', ''CheckSum'']"

text \<open>
  The row that the validator reads, from the series of a field-log row. A series without
  one of the columns raises \<^verbatim>\<open>KeyError\<close>; the reconciled field log has them all.
\<close>

definition cell :: "(string \<times> pyval) list \<Rightarrow> string \<Rightarrow> pyval" where
  "cell s k = (case map_of s k of None \<Rightarrow> PyNone | Some v \<Rightarrow> v)"

definition fieldrow_of :: "(string \<times> pyval) list \<Rightarrow> error + fieldrow" where
  "fieldrow_of s =
     (case filter (\<lambda>k. map_of s k = None) colnames of
        k # ks \<Rightarrow> Inl (KeyError k)
      | [] \<Rightarrow>
          Inr \<lparr>Year = cell s ''Year'', Month = cell s ''Month'', Day = cell s ''Day'',
               Sensor = cell s ''Sensor'', Technician = cell s ''Technician'',
               Runs = cell s ''Runs'', Site = cell s ''Site'',
               MakeNotesFile = cell s ''MakeNotesFile'', CheckSum = cell s ''CheckSum''\<rparr>)"

text \<open>
  Lines 62 to 67, the loop over the rows of a field log. The rows are those the frame had
  when the loop began; the frame that \<^verbatim>\<open>Sitebuilder\<close> updates is carried along. An
  exception ends the loop with the files and folders as they are at that moment.
\<close>

fun row_loop ::
  "env \<Rightarrow> args \<Rightarrow> string \<Rightarrow> (string \<times> pyval) list \<Rightarrow> projinfo \<Rightarrow> pyval \<Rightarrow> node
     \<Rightarrow> (pyval \<times> (string \<times> pyval) list) list \<Rightarrow> frame \<Rightarrow> bool \<Rightarrow> world
     \<Rightarrow> (error + (frame \<times> bool)) \<times> world" where
  "row_loop e a flog_fname prow ProjectInfo project nd [] df_flog gitmod w =
     (Inr (df_flog, gitmod), w)"
| "row_loop e a flog_fname prow ProjectInfo project nd ((idx, series) # rest) df_flog gitmod w =
     (case fieldrow_of series of
        Inl err \<Rightarrow> (Inl err, w)
      | Inr frow \<Rightarrow>
          (case Rowchecker e flog_fname frow prow ProjectInfo (historical a) (default_past_date e) of
             Inl err \<Rightarrow> (Inl err, w)
           | Inr (check, st) \<Rightarrow>
               (case Sitebuilder e flog_fname df_flog idx frow check st project nd (no_git a)
                       gitmod w of
                  (Inl err, w1) \<Rightarrow> (Inl err, w1)
                | (Inr (df1, gitmod1), w1) \<Rightarrow>
                    row_loop e a flog_fname prow ProjectInfo project nd rest df1 gitmod1 w1)))"

text \<open>Lines 54 to 67, the loop over the projects of a node.\<close>

fun project_loop ::
  "env \<Rightarrow> args \<Rightarrow> node \<Rightarrow> (pyval \<times> (string \<times> pyval) list) list \<Rightarrow> bool \<Rightarrow> world
     \<Rightarrow> (error + bool) \<times> world" where
  "project_loop e a nd [] gitmod w = (Inr gitmod, w)"
| "project_loop e a nd ((project, row) # rest) gitmod w =
     (case projBuilder e project nd colnames (no_git a) gitmod w of
        (Inl err, w1) \<Rightarrow> (Inl err, w1)
      | (Inr (df_flog, gitmod1, flog_fname, Site_names, ProjectInfo), w1) \<Rightarrow>
          if \<not> empty_frame df_flog then
            (case row_loop e a flog_fname row ProjectInfo project nd (iterrows df_flog)
                    df_flog gitmod1 w1 of
               (Inl err, w2) \<Rightarrow> (Inl err, w2)
             | (Inr (df2, gitmod2), w2) \<Rightarrow> project_loop e a nd rest gitmod2 w2)
          else project_loop e a nd rest gitmod1 w1)"

text \<open>
  Lines 42 to 67, the loop over the nodes. At a node whose table is empty the source
  executes \<^verbatim>\<open>break\<close>, which leaves this loop.
\<close>

fun node_loop :: "env \<Rightarrow> args \<Rightarrow> node list \<Rightarrow> bool \<Rightarrow> world \<Rightarrow> (error + bool) \<times> world" where
  "node_loop e a [] gitmod w = (Inr gitmod, w)"
| "node_loop e a (nd # rest) gitmod w =
     (case NodeChecker e (no_git a) nd gitmod w of
        (Inl err, w1) \<Rightarrow> (Inl err, w1)
      | (Inr (df, gitmod1), w1) \<Rightarrow>
          if empty_frame df then (Inr gitmod1, w1)
          else
            (case project_loop e a nd (iterrows df) gitmod1 w1 of
               (Inl err, w2) \<Rightarrow> (Inl err, w2)
             | (Inr gitmod2, w2) \<Rightarrow> node_loop e a rest gitmod2 w2))"

definition main :: "env \<Rightarrow> args \<Rightarrow> world \<Rightarrow> (error + unit) \<times> world" where
  "main e a w =
     (case (if \<not> no_git a then GitPull e else None) of
        Some err \<Rightarrow> (Inl err, w)
      | None \<Rightarrow>
          (case nodes_yaml w (projectsYAML a) of
             None \<Rightarrow> (Inl (FileNotFoundError (projectsYAML a)), w)
           | Some nodeinfo \<Rightarrow>
               (case node_loop e a nodeinfo False w of
                  (Inl err, w1) \<Rightarrow> (Inl err, w1)
                | (Inr gitmod, w1) \<Rightarrow>
                    if gitmod \<and> \<not> no_git a then (Inr (), w1\<lparr>commits := commits w1 + 1\<rparr>)
                    else (Inr (), w1))))"

section \<open>An example configuration\<close>

text \<open>
  The node, project, site and field-log row of the end-to-end scenario, with a row hash, a
  date parser and a clock to run them on: every cell hashes to the same value, the parser
  knows the first of June 2024, and the run takes place at ten in the morning of that day.
  Its numpy makes arrays of up to \<open>2^32\<close> numbers and, as on x86-64, an empty array for
  the count \<open>2^63 - 1\<close>.
\<close>

definition example_env :: env where
  "example_env =
     \<lparr>hash_pandas_object = (\<lambda>vs. map (\<lambda>v. 20250522) vs),
      Timestamp = (\<lambda>s. if s = ''2024-6-1'' then Inr (days 19875)
                        else Inl ''Unknown datetime string format''),
      now = days 19875 + hours 10,
      import_time = days 19875 + hours 10,
      debugger_resume = True,
      float_repr = (\<lambda>f. ''nan''),
      pull_log = ''Already up to date.'',
      head_tree = {},
      index_diff_HEAD = (\<lambda>added. map remove_dotslash added),
      index_diff_None = (\<lambda>added. []),
      np_arange_big = (\<lambda>n. if n = 9223372036854775807 then Inr []
                           else if 0 \<le> n \<and> n < 4294967296 then Inr [0..<nat n]
                           else Inl MemoryError)\<rparr>"

definition example_args :: args where
  "example_args = \<lparr>no_git = True, projectsYAML = ''./NodeSummary.yaml'', historical = False\<rparr>"

definition narrabri :: node where
  "narrabri = \<lparr>node_name = ''Narrabri'', SensorPlatforms = [''GOBI'', ''M3M'']\<rparr>"

definition main_site :: site where
  "main_site = \<lparr>site_name = ''Main'', site_year = 2024, ControlledEnvironment = PyBool False\<rparr>"

definition p1_info :: projinfo where
  "p1_info = \<lparr>ShortName = ''P1'', sites = [main_site]\<rparr>"

definition p1_row :: "(string \<times> pyval) list" where
  "p1_row = [(''GOBI'', PyBool False), (''M3M'', PyBool True)]"

definition june_row :: fieldrow where
  "june_row =
     \<lparr>Year = PyInt 2024, Month = PyInt 6, Day = PyInt 1, Sensor = PyStr ''M3M'',
      Technician = PyStr ''Tech1'', Runs = PyInt 2, Site = PyStr ''Main'',
      MakeNotesFile = PyBool False, CheckSum = PyFloat NaN\<rparr>"

definition june_cells :: "pyval list" where
  "june_cells =
     [PyInt 2024, PyInt 6, PyInt 1, PyStr ''M3M'', PyStr ''Tech1'', PyInt 2, PyStr ''Main'',
      PyBool False, PyFloat NaN]"

definition p1_flog :: string where
  "p1_flog = ''./Narrabri/P1/FieldLog.csv''"

text \<open>
  Variants of the row: processed (the stored checksum is the one the run writes), stored
  with another checksum, new with a sensor the project does not use, and processed with
  the largest 64-bit count of runs; and the project row after M3M has been switched off.
\<close>

definition done_row :: fieldrow where
  "done_row = june_row\<lparr>CheckSum := PyFloat (Fin 62004176)\<rparr>"

definition thermal_row :: fieldrow where
  "thermal_row = june_row\<lparr>Sensor := PyStr ''Thermal''\<rparr>"

definition huge_row :: fieldrow where
  "huge_row = done_row\<lparr>Runs := PyInt 9223372036854775807\<rparr>"

definition p1_row_off :: "(string \<times> pyval) list" where
  "p1_row_off = [(''GOBI'', PyBool False), (''M3M'', PyBool False)]"

definition stale_row :: fieldrow where
  "stale_row = june_row\<lparr>CheckSum := PyFloat (Fin 1)\<rparr>"

text \<open>The series of a row, a world without files or folders, and the field log in memory.\<close>

definition series_of :: "fieldrow \<Rightarrow> (string \<times> pyval) list" where
  "series_of r =
     zip colnames [Year r, Month r, Day r, Sensor r, Technician r, Runs r, Site r,
                   MakeNotesFile r, CheckSum r]"

definition empty_world :: world where
  "empty_world =
     \<lparr>dirs = [], touched = [], csv = Map.empty, yaml = Map.empty, nodes_yaml = Map.empty,
      staged = [], commits = 0\<rparr>"

definition p1_frame :: frame where
  "p1_frame = \<lparr>index = [PyInt 0], columns = colnames, cells = [june_cells]\<rparr>"

text \<open>
  The files of the scenario before the first run, and the same files under a configuration
  that lists a node without projects before Narrabri.
\<close>

definition trangie :: node where
  "trangie = \<lparr>node_name = ''Trangie'', SensorPlatforms = [''GOBI'']\<rparr>"

definition narrabri_world :: world where
  "narrabri_world =
     \<lparr>dirs = [], touched = [],
      csv = [''./Narrabri/Narrabri_ProjectsSummary.csv'' \<mapsto>
               \<lparr>header = [''Project'', ''GOBI'', ''M3M''],
                body = [[PyStr ''P1'', PyBool False, PyBool True]]\<rparr>,
             ''./Narrabri/P1/FieldLog.csv'' \<mapsto> \<lparr>header = colnames, body = [june_cells]\<rparr>],
      yaml = [''./Narrabri/P1/ProjectSummary.yaml'' \<mapsto> p1_info],
      nodes_yaml = [''./NodeSummary.yaml'' \<mapsto> [narrabri]],
      staged = [], commits = 0\<rparr>"

definition two_node_world :: world where
  "two_node_world =
     narrabri_world\<lparr>nodes_yaml := [''./NodeSummary.yaml'' \<mapsto> [trangie, narrabri]]\<rparr>"

text \<open>
  The folders of the scenario: after the node has been checked, after the project folders
  have been made, after the site folders have been made, and those of the field day.
\<close>

definition site_world :: world where
  "site_world =
     narrabri_world
       \<lparr>dirs := [''./Narrabri'', ''./Narrabri/P1'', ''./Narrabri/P1/Documentation'',
                 ''./Narrabri/P1/Code'', ''./Narrabri/P1/2024Main_F'',
                 ''./Narrabri/P1/2024Main_F/Documentation'', ''./Narrabri/P1/2024Main_F/Code'']\<rparr>"

definition june_folders :: "string list" where
  "june_folders =
     [''./Narrabri/P1/2024Main_F/M3M'',
      ''./Narrabri/P1/2024Main_F/M3M/20240601'',
      ''./Narrabri/P1/2024Main_F/M3M/20240601/run_00'',
      ''./Narrabri/P1/2024Main_F/M3M/20240601/run_00/Tier0_raw'',
      ''./Narrabri/P1/2024Main_F/M3M/20240601/run_00/Tier1_proc'',
      ''./Narrabri/P1/2024Main_F/M3M/20240601/run_00/Tier2_traits'',
      ''./Narrabri/P1/2024Main_F/M3M/20240601/run_01'',
      ''./Narrabri/P1/2024Main_F/M3M/20240601/run_01/Tier0_raw'',
      ''./Narrabri/P1/2024Main_F/M3M/20240601/run_01/Tier1_proc'',
      ''./Narrabri/P1/2024Main_F/M3M/20240601/run_01/Tier2_traits'']"

definition node_world :: world where
  "node_world = narrabri_world\<lparr>dirs := [''./Narrabri'']\<rparr>"

definition project_world :: world where
  "project_world =
     narrabri_world\<lparr>dirs := [''./Narrabri'', ''./Narrabri/P1'', ''./Narrabri/P1/Documentation'',
                 ''./Narrabri/P1/Code'']\<rparr>"

text \<open>A table with the single column C, and the same table reconciled with A, B and C.\<close>

definition c_frame :: frame where
  "c_frame = \<lparr>index = [PyInt 0], columns = [''C''], cells = [[PyInt 7]]\<rparr>"

definition abc_frame :: frame where
  "abc_frame =
     \<lparr>index = [PyInt 0], columns = [''A'', ''B'', ''C''],
      cells = [[PyBool False, PyBool False, PyInt 7]]\<rparr>"

section \<open>Properties\<close>

lemmas example_defs = example_env_def example_args_def june_row_def p1_row_def p1_info_def
  main_site_def p1_flog_def thermal_row_def stale_row_def done_row_def narrabri_def p1_row_off_def huge_row_def

lemmas eval_defs = checksum_state_def check_value_def drop_CheckSum_def float_of_nat_def py_eq_def
  Rowchecker_def row_checks_def check_dtypes_def date_text_def date_bounds_def config_checks_def
  enabled_sensors_def str_int_def digits.simps digit_char_def hours_def days_def
  default_past_date_def

subsection \<open>The site name\<close>

lemma sitenamemaker_cases:
  "sitenamemaker s f =
     (case ControlledEnvironment s of
        PyNone \<Rightarrow> Inr (str_int (site_year s) @ site_name s)
      | PyBool b \<Rightarrow> Inr (str_int (site_year s) @ site_name s @ (if b then ''_C'' else ''_F''))
      | v \<Rightarrow> if in_True_False v
              then Inr (str_int (site_year s) @ site_name s @ (if truthy v then ''_C'' else ''_F''))
              else Inl (SiteConfigError (site_name s) v f))"
  by (simp add: sitenamemaker_def in_True_False_def py_eq_def Let_def split: pyval.splits)

text \<open>
  Claim C8. The site name is the year and the name, with \<open>_C\<close> for a controlled
  environment, \<open>_F\<close> for a field site and nothing for null, and any other value of the flag
  is an error. The membership test \<^verbatim>\<open>in [True, False]\<close> compares with \<^verbatim>\<open>==\<close>, and the
  integer 1 equals \<^verbatim>\<open>True\<close>: a site whose flag is the integer 1 is not refused, it is
  named as a controlled environment.
\<close>

theorem sitenamemaker_accepts_one:
  "sitenamemaker \<lparr>site_name = ''Main'', site_year = 2024, ControlledEnvironment = PyInt 1\<rparr>
     ''./Narrabri/P1/ProjectSummary.yaml'' = Inr ''2024Main_C''"
  by (simp add: sitenamemaker_def in_True_False_def py_eq_def str_int_def digits.simps
      digit_char_def)

subsection \<open>The row validator\<close>

lemma dtype_loop_Some:
  "dtype_loop t xs = Some c \<Longrightarrow> \<exists>vname t'. c = TypeMismatch vname t' \<and> t' \<noteq> t"
  by (induction xs) (auto split: if_splits)

lemma check_dtypes_None:
  "check_dtypes r = None \<longleftrightarrow>
     type_of (Year r) = T_int \<and> type_of (Month r) = T_int \<and> type_of (Day r) = T_int \<and>
     type_of (Runs r) = T_int \<and> type_of (Technician r) = T_str \<and> type_of (Sensor r) = T_str \<and>
     type_of (Site r) = T_str"
  by (auto simp: check_dtypes_def split: option.splits if_splits)

lemma check_dtypes_Some:
  "check_dtypes r = Some c \<Longrightarrow> \<exists>vname t. c = TypeMismatch vname t"
  unfolding check_dtypes_def
  by (auto simp del: dtype_loop.simps split: option.splits dest: dtype_loop_Some)

text \<open>
  Claim C10. The type checks accept a cell only when its runtime type is exactly
  \<^verbatim>\<open>int\<close> (Year, Month, Day, Runs) or exactly \<^verbatim>\<open>str\<close> (Technician, Sensor, Site). Once
  the checksum stage has let the row through, a cell of any other type (a bool, a numpy
  integer) makes the validator fail with a type mismatch naming a column and the type
  found; for Year, the first column checked, the error names Year and its type. A row that
  the validator accepts has exactly these types.
\<close>

theorem Rowchecker_type_mismatch:
  assumes "checksum_state e r = Inr check"
  shows "(type_of (Year r) \<noteq> T_int \<or> type_of (Month r) \<noteq> T_int \<or> type_of (Day r) \<noteq> T_int \<or>
          type_of (Runs r) \<noteq> T_int \<or> type_of (Technician r) \<noteq> T_str \<or>
          type_of (Sensor r) \<noteq> T_str \<or> type_of (Site r) \<noteq> T_str \<longrightarrow>
          (\<exists>vname t. Rowchecker e f r prow pinfo h past =
                        Inl (ValueError f r (TypeMismatch vname t)))) \<and>
         (type_of (Year r) \<noteq> T_int \<longrightarrow>
            Rowchecker e f r prow pinfo h past =
              Inl (ValueError f r (TypeMismatch ''Year'' (type_of (Year r))))) \<and>
         (\<forall>res. Rowchecker e f r prow pinfo h past = Inr res \<longrightarrow>
            type_of (Year r) = T_int \<and> type_of (Month r) = T_int \<and> type_of (Day r) = T_int \<and>
            type_of (Runs r) = T_int \<and> type_of (Technician r) = T_str \<and>
            type_of (Sensor r) = T_str \<and> type_of (Site r) = T_str)"
proof -
  have any: "\<exists>vname t. Rowchecker e f r prow pinfo h past = Inl (ValueError f r (TypeMismatch vname t))"
    if "check_dtypes r \<noteq> None"
  proof -
    from that obtain c where c: "check_dtypes r = Some c" by auto
    then obtain vname t where "c = TypeMismatch vname t"
      using check_dtypes_Some by blast
    with c assms show ?thesis
      by (simp add: Rowchecker_def row_checks_def)
  qed
  have year: "Rowchecker e f r prow pinfo h past =
                Inl (ValueError f r (TypeMismatch ''Year'' (type_of (Year r))))"
    if "type_of (Year r) \<noteq> T_int"
  proof -
    from that have "check_dtypes r = Some (TypeMismatch ''Year'' (type_of (Year r)))"
      by (simp add: check_dtypes_def)
    with assms show ?thesis
      by (simp add: Rowchecker_def row_checks_def)
  qed
  have ok: "check_dtypes r = None" if "Rowchecker e f r prow pinfo h past = Inr res" for res
    using that assms by (auto simp: Rowchecker_def row_checks_def split: option.splits)
  show ?thesis
    using any year ok unfolding check_dtypes_None by blast
qed

theorem Rowchecker_type_mismatch_witness:
  "checksum_state example_env (june_row\<lparr>Year := NpInt64 2024\<rparr>) = Inr (Some (Fin 62004176)) \<and>
   type_of (Year (june_row\<lparr>Year := NpInt64 2024\<rparr>)) \<noteq> T_int \<and>
   Rowchecker example_env p1_flog (june_row\<lparr>Year := NpInt64 2024\<rparr>) p1_row p1_info False 0 =
     Inl (ValueError p1_flog (june_row\<lparr>Year := NpInt64 2024\<rparr>) (TypeMismatch ''Year'' T_np_int64))"
proof -
  have a: "checksum_state example_env (june_row\<lparr>Year := NpInt64 2024\<rparr>) = Inr (Some (Fin 62004176))"
    by (simp add: example_defs checksum_state_def check_value_def drop_CheckSum_def
        float_of_nat_def)
  have b: "type_of (Year (june_row\<lparr>Year := NpInt64 2024\<rparr>)) \<noteq> T_int"
    by simp
  from Rowchecker_type_mismatch [OF a, of p1_flog p1_row p1_info False 0] a b
  show ?thesis by simp
qed

lemma temporal_bounds_param:
  assumes unset: "CheckSum r = PyFloat NaN"
    and types: "check_dtypes r = None"
    and date: "Timestamp e (date_text r) = Inr date"
  shows "(date > now e + hours 12 \<longrightarrow>
            Rowchecker e f r prow pinfo h past = Inl (ValueError f r FutureDate)) \<and>
         (date \<le> now e + hours 12 \<and> date < past \<and> \<not> h \<longrightarrow>
            Rowchecker e f r prow pinfo h past = Inl (ValueError f r TooHistorical)) \<and>
         (date \<le> now e + hours 12 \<and> (past \<le> date \<or> h) \<longrightarrow>
            Rowchecker e f r prow pinfo h past =
              (case config_checks r prow pinfo of
                 Inl c \<Rightarrow> Inl (ValueError f r c)
               | Inr s \<Rightarrow> Inr (Some (float_of_nat (check_value e r)), s)))"
  using assms
  by (auto simp: Rowchecker_def row_checks_def checksum_state_def date_bounds_def split: sum.splits)

text \<open>
  Claim C6. Instants are counted in nanoseconds: 12 hours are 43200000000000 and 14 days
  are 1209600000000000. For a new row (the stored checksum is NaN) whose types are right
  and whose date parses, validated as the run does with the default \<open>past_date\<close>, the
  temporal bounds are inclusive at both ends: a date after now + 12 hours fails as a
  future date; a date not after it and before the reference time - 14 days fails as too
  historical unless historical rows are allowed; every other date, among them
  now + 12 hours and the reference time - 14 days themselves, passes whatever the
  historical flag is, and the outcome is that of the sensor, run-count and site checks.
\<close>

theorem temporal_bounds_inclusive:
  assumes unset: "CheckSum r = PyFloat NaN"
    and types: "check_dtypes r = None"
    and date: "Timestamp e (date_text r) = Inr date"
  shows "(date > now e + 43200000000000 \<longrightarrow>
            Rowchecker e f r prow pinfo h (default_past_date e) =
              Inl (ValueError f r FutureDate)) \<and>
         (date \<le> now e + 43200000000000 \<and> date < import_time e - 1209600000000000 \<and> \<not> h \<longrightarrow>
            Rowchecker e f r prow pinfo h (default_past_date e) =
              Inl (ValueError f r TooHistorical)) \<and>
         (date \<le> now e + 43200000000000 \<and> (import_time e - 1209600000000000 \<le> date \<or> h) \<longrightarrow>
            Rowchecker e f r prow pinfo h (default_past_date e) =
              (case config_checks r prow pinfo of
                 Inl c \<Rightarrow> Inl (ValueError f r c)
               | Inr s \<Rightarrow> Inr (Some (float_of_nat (check_value e r)), s)))"
proof -
  have h12: "hours 12 = 43200000000000"
    by (simp add: hours_def)
  have d14: "default_past_date e = import_time e - 1209600000000000"
    by (simp add: default_past_date_def days_def hours_def)
  show ?thesis
    using temporal_bounds_param [OF assms, of f prow pinfo h "default_past_date e"]
    unfolding h12 d14 .
qed

theorem temporal_bounds_inclusive_witness:
  "CheckSum june_row = PyFloat NaN \<and> check_dtypes june_row = None \<and>
   Timestamp (example_env\<lparr>now := 1718409600000000000, import_time := 1718409600000000000\<rparr>)
     (date_text june_row) = Inr 1717200000000000000 \<and>
   (1717200000000000000 :: int) = 1718409600000000000 - 1209600000000000 \<and>
   Rowchecker (example_env\<lparr>now := 1718409600000000000, import_time := 1718409600000000000\<rparr>)
     p1_flog june_row p1_row p1_info False
     (default_past_date (example_env\<lparr>now := 1718409600000000000,
                                     import_time := 1718409600000000000\<rparr>)) =
     Inr (Some (Fin 62004176), main_site) \<and>
   Rowchecker (example_env\<lparr>now := 1718409600000000000, import_time := 1718409600000000001\<rparr>)
     p1_flog june_row p1_row p1_info False
     (default_past_date (example_env\<lparr>now := 1718409600000000000,
                                     import_time := 1718409600000000001\<rparr>)) =
     Inl (ValueError p1_flog june_row TooHistorical) \<and>
   Timestamp (example_env\<lparr>now := 1717156800000000000\<rparr>) (date_text june_row) =
     Inr 1717200000000000000 \<and>
   (1717200000000000000 :: int) = 1717156800000000000 + 43200000000000 \<and>
   Rowchecker (example_env\<lparr>now := 1717156800000000000\<rparr>) p1_flog june_row p1_row p1_info False
     (default_past_date (example_env\<lparr>now := 1717156800000000000\<rparr>)) =
     Inr (Some (Fin 62004176), main_site) \<and>
   Rowchecker (example_env\<lparr>now := 1717156799999999999\<rparr>) p1_flog june_row p1_row p1_info False
     (default_past_date (example_env\<lparr>now := 1717156799999999999\<rparr>)) =
     Inl (ValueError p1_flog june_row FutureDate)"
proof -
  let ?e1 = "example_env\<lparr>now := 1718409600000000000, import_time := 1718409600000000000\<rparr>"
  let ?e2 = "example_env\<lparr>now := 1718409600000000000, import_time := 1718409600000000001\<rparr>"
  let ?e3 = "example_env\<lparr>now := 1717156800000000000\<rparr>"
  let ?e4 = "example_env\<lparr>now := 1717156799999999999\<rparr>"
  have a: "CheckSum june_row = PyFloat NaN" by (simp add: june_row_def)
  have b: "check_dtypes june_row = None" by (simp add: june_row_def check_dtypes_def)
  have dt: "date_text june_row = ''2024-6-1''"
    by (simp add: date_text_def june_row_def str_int_def digits.simps digit_char_def)
  have c: "Timestamp e' (date_text june_row) = Inr 1717200000000000000"
    if "Timestamp e' = Timestamp example_env" for e'
    using that by (simp add: dt example_env_def days_def hours_def)
  have cc: "config_checks june_row p1_row p1_info = Inr main_site"
    by (simp add: example_defs eval_defs)
  have cv: "float_of_nat (check_value e' june_row) = Fin 62004176"
    if "hash_pandas_object e' = hash_pandas_object example_env" for e'
    using that by (simp add: example_defs eval_defs)
  have c1: "Timestamp ?e1 (date_text june_row) = Inr 1717200000000000000" by (rule c) simp
  have c2: "Timestamp ?e2 (date_text june_row) = Inr 1717200000000000000" by (rule c) simp
  have c3: "Timestamp ?e3 (date_text june_row) = Inr 1717200000000000000" by (rule c) simp
  have c4: "Timestamp ?e4 (date_text june_row) = Inr 1717200000000000000" by (rule c) simp
  have v1: "float_of_nat (check_value ?e1 june_row) = Fin 62004176" by (rule cv) simp
  have v3: "float_of_nat (check_value ?e3 june_row) = Fin 62004176" by (rule cv) simp
  have i3: "import_time ?e3 = 1717236000000000000" "import_time ?e4 = 1717236000000000000"
    by (simp_all add: example_env_def days_def hours_def)
  from temporal_bounds_inclusive [OF a b c1, of p1_flog p1_row p1_info False]
    temporal_bounds_inclusive [OF a b c2, of p1_flog p1_row p1_info False]
    temporal_bounds_inclusive [OF a b c3, of p1_flog p1_row p1_info False]
    temporal_bounds_inclusive [OF a b c4, of p1_flog p1_row p1_info False]
  show ?thesis
    using a b c1 c3 by (simp add: cc v1 v3 i3)
qed

text \<open>
  Claim C1, as stated: a row whose stored checksum is set and differs from the recomputed
  one never yields a checksum and a site. When the debugger resumes after the
  \<^verbatim>\<open>breakpoint()\<close>, the validator goes on and returns both.
\<close>

theorem checksum_mismatch_counterexample:
  "np_isnan (CheckSum stale_row) = Inr False \<and>
   \<not> py_eq (PyFloat (float_of_nat (check_value example_env stale_row))) (CheckSum stale_row) \<and>
   Rowchecker example_env p1_flog stale_row p1_row p1_info False (default_past_date example_env) =
     Inr (Some (Fin 62004176), main_site)"
  by (simp add: example_defs eval_defs)

text \<open>
  Claim C1, amended. On a mismatch the validator enters the debugger. It stops there only
  when the operator quits the debugger; when the debugger resumes, every check runs with
  the recomputed checksum, and the row is accepted exactly when the same row with an unset
  checksum is, with the same checksum and site.
\<close>

theorem checksum_mismatch_breakpoint:
  assumes "np_isnan (CheckSum r) = Inr False"
    and "\<not> py_eq (PyFloat (float_of_nat (check_value e r))) (CheckSum r)"
  shows "Rowchecker e f r prow pinfo h past =
           (if debugger_resume e
            then row_checks e f r prow pinfo h past (Some (float_of_nat (check_value e r)))
            else Inl BdbQuit) \<and>
         (debugger_resume e \<longrightarrow>
            (\<forall>res. Rowchecker e f r prow pinfo h past = Inr res \<longleftrightarrow>
                   Rowchecker e f (r\<lparr>CheckSum := PyFloat NaN\<rparr>) prow pinfo h past = Inr res))"
  using assms
  by (auto simp: Rowchecker_def row_checks_def checksum_state_def check_value_def drop_CheckSum_def
        check_dtypes_def date_text_def config_checks_def
      split: sum.splits option.splits if_splits)

theorem checksum_mismatch_breakpoint_witness:
  "np_isnan (CheckSum stale_row) = Inr False \<and>
   \<not> py_eq (PyFloat (float_of_nat (check_value (example_env\<lparr>debugger_resume := False\<rparr>) stale_row)))
        (CheckSum stale_row) \<and>
   Rowchecker (example_env\<lparr>debugger_resume := False\<rparr>) p1_flog stale_row p1_row p1_info False 0 =
     Inl BdbQuit"
proof -
  let ?e = "example_env\<lparr>debugger_resume := False\<rparr>"
  have a: "np_isnan (CheckSum stale_row) = Inr False"
    by (simp add: example_defs)
  have b: "\<not> py_eq (PyFloat (float_of_nat (check_value ?e stale_row))) (CheckSum stale_row)"
    by (simp add: example_defs eval_defs)
  have c: "\<not> debugger_resume ?e"
    by (simp add: example_defs)
  from checksum_mismatch_breakpoint [OF a b, of p1_flog p1_row p1_info False 0] c
  show ?thesis using a b by simp
qed

text \<open>
  Claim C3, as stated: a row whose stored checksum matches skips every field check and
  returns at once. The processed row matches; once its sensor has been switched off in the
  project table, the validator refuses it.
\<close>

theorem matched_row_counterexample:
  "np_isnan (CheckSum done_row) = Inr False \<and>
   py_eq (PyFloat (float_of_nat (check_value example_env done_row))) (CheckSum done_row) \<and>
   Rowchecker example_env p1_flog done_row p1_row_off p1_info False
     (default_past_date example_env) = Inl (ValueError p1_flog done_row UnknownSensor)"
  by (simp add: example_defs eval_defs)

text \<open>
  Claim C3, amended. For a row whose stored checksum matches, only the temporal bounds are
  skipped: the type checks, the date parse and the sensor, run-count and site checks run
  and fail as for any row, whatever the clock, \<open>past_date\<close> and the historical flag are;
  when they pass, the validator returns no checksum and the resolved site.
\<close>

theorem matched_row_checks:
  assumes "np_isnan (CheckSum r) = Inr False"
    and "py_eq (PyFloat (float_of_nat (check_value e r))) (CheckSum r)"
  shows "Rowchecker e f r prow pinfo h past =
           (case check_dtypes r of
              Some c \<Rightarrow> Inl (ValueError f r c)
            | None \<Rightarrow>
                (case Timestamp e (date_text r) of
                   Inl er \<Rightarrow> Inl (ValueError f r (InvalidDate er))
                 | Inr date \<Rightarrow>
                     (case config_checks r prow pinfo of
                        Inl c \<Rightarrow> Inl (ValueError f r c)
                      | Inr s \<Rightarrow> Inr (None, s))))"
  using assms
  by (simp add: Rowchecker_def row_checks_def checksum_state_def date_bounds_def
      split: sum.splits option.splits)

theorem matched_row_checks_witness:
  "np_isnan (CheckSum done_row) = Inr False \<and>
   py_eq (PyFloat (float_of_nat (check_value example_env done_row))) (CheckSum done_row) \<and>
   Rowchecker example_env p1_flog done_row p1_row p1_info False (days 20000) =
     Inr (None, main_site)"
proof -
  have a: "np_isnan (CheckSum done_row) = Inr False"
    by (simp add: example_defs)
  have b: "py_eq (PyFloat (float_of_nat (check_value example_env done_row))) (CheckSum done_row)"
    by (simp add: example_defs eval_defs)
  have c: "check_dtypes done_row = None"
    by (simp add: example_defs check_dtypes_def)
  have d: "Timestamp example_env (date_text done_row) = Inr (days 19875)"
    by (simp add: example_defs eval_defs)
  have e: "config_checks done_row p1_row p1_info = Inr main_site"
    by (simp add: example_defs eval_defs)
  from matched_row_checks [OF a b, of p1_flog p1_row p1_info False "days 20000"] c d e
  show ?thesis using a b by simp
qed

lemma checksum_state_error: "checksum_state e r = Inl err \<Longrightarrow> err = TypeError \<or> err = BdbQuit"
  by (cases "CheckSum r")
     (auto simp: checksum_state_def Let_def split: if_splits sum.splits bool.splits)

lemma Rowchecker_ValueError:
  "Rowchecker e f r prow pinfo h past = Inl (ValueError f' r' c) \<Longrightarrow> f' = f \<and> r' = r"
  by (auto simp: Rowchecker_def row_checks_def split: sum.splits option.splits
      dest: checksum_state_error)




lemma fieldrow_of_series_of: "fieldrow_of (series_of r) = Inr r"
  by (simp add: fieldrow_of_def series_of_def colnames_def cell_def)

subsection \<open>Folders\<close>










lemma pymkdir_frame [simp]:
  "touched (pymkdir p w) = touched w" "csv (pymkdir p w) = csv w" "yaml (pymkdir p w) = yaml w"
  "nodes_yaml (pymkdir p w) = nodes_yaml w" "staged (pymkdir p w) = staged w"
  "commits (pymkdir p w) = commits w"
  by (simp_all add: pymkdir_def makedirs_def)

lemma fold_pymkdir_frame [simp]:
  "touched (fold pymkdir ps w) = touched w" "csv (fold pymkdir ps w) = csv w"
  "yaml (fold pymkdir ps w) = yaml w" "nodes_yaml (fold pymkdir ps w) = nodes_yaml w"
  "staged (fold pymkdir ps w) = staged w" "commits (fold pymkdir ps w) = commits w"
  by (induction ps arbitrary: w) simp_all


subsection \<open>The loop over the rows\<close>

lemma row_loop_step:
  assumes "fieldrow_of series = Inr frow"
    and "Rowchecker e flog_fname frow prow pinfo (historical a) (default_past_date e) =
           Inr (check, st)"
    and "Sitebuilder e flog_fname df_flog idx frow check st project nd (no_git a) gitmod w =
           (Inr (df1, gitmod1), w1)"
  shows "row_loop e a flog_fname prow pinfo project nd ((idx, series) # rest) df_flog gitmod w =
           row_loop e a flog_fname prow pinfo project nd rest df1 gitmod1 w1"
  using assms by simp

text \<open>
  Claim C2. When the validator refuses a row, the loop over the rows ends with that error
  and with the files and folders as they were before the row: no folder has been made for
  it, the field log has not been rewritten, and no later row is looked at. A validation
  error carries the file name and the offending row with its cause.
\<close>

theorem validation_failure_aborts:
  assumes "fieldrow_of series = Inr frow"
    and "Rowchecker e flog_fname frow prow pinfo (historical a) (default_past_date e) = Inl err"
  shows "row_loop e a flog_fname prow pinfo project nd ((idx, series) # rest) df_flog gitmod w =
           (Inl err, w) \<and>
         (\<forall>f' r' c. err = ValueError f' r' c \<longrightarrow> f' = flog_fname \<and> r' = frow)"
  using assms by (auto dest: Rowchecker_ValueError)

theorem validation_failure_aborts_witness:
  "fieldrow_of (series_of thermal_row) = Inr thermal_row \<and>
   Rowchecker example_env p1_flog thermal_row p1_row p1_info (historical example_args)
     (default_past_date example_env) = Inl (ValueError p1_flog thermal_row UnknownSensor) \<and>
   row_loop example_env example_args p1_flog p1_row p1_info (PyStr ''P1'') narrabri
     [(PyInt 0, series_of thermal_row), (PyInt 1, series_of june_row)] p1_frame False empty_world =
     (Inl (ValueError p1_flog thermal_row UnknownSensor), empty_world)"
proof -
  have a: "fieldrow_of (series_of thermal_row) = Inr thermal_row"
    by (rule fieldrow_of_series_of)
  have b: "Rowchecker example_env p1_flog thermal_row p1_row p1_info (historical example_args)
             (default_past_date example_env) = Inl (ValueError p1_flog thermal_row UnknownSensor)"
    by (simp add: example_defs eval_defs)
  from validation_failure_aborts [OF a b] a b show ?thesis by blast
qed

lemma np_arange_small: "- 100 \<le> n \<Longrightarrow> n \<le> 100 \<Longrightarrow> np_arange e n = Inr [0..<nat n]"
  by (simp add: np_arange_def)



subsection \<open>The loop over the nodes\<close>

lemma node_loop_break:
  assumes "NodeChecker e (no_git a) nd gitmod w = (Inr (df, gitmod1), w1)" and "empty_frame df"
  shows "node_loop e a (nd # rest) gitmod w = (Inr gitmod1, w1)"
  using assms by simp

lemma ancestors_trangie: "ancestors ''./Trangie'' = [''.'', ''./Trangie'']"
  by code_simp

lemma NodeChecker_trangie:
  "NodeChecker example_env True trangie False two_node_world =
     (Inr (\<lparr>index = [], columns = [''GOBI''], cells = []\<rparr>, False),
      two_node_world
        \<lparr>dirs := [''./Trangie''],
         csv := (csv two_node_world)(''./Trangie/Trangie_ProjectsSummary.csv'' \<mapsto>
                  \<lparr>header = [''Project'', ''GOBI''], body = []\<rparr>)\<rparr>)"
  by (simp add: NodeChecker_def pymkdir_def makedirs_def path_exists_def ancestors_trangie
      trangie_def two_node_world_def narrabri_world_def to_csv_def to_table_def
      read_csv_index0_def df_col_check_def Let_def is_under_def)

lemma main_two_nodes:
  "main example_env example_args two_node_world =
     (Inr (),
      two_node_world
        \<lparr>dirs := [''./Trangie''],
         csv := (csv two_node_world)(''./Trangie/Trangie_ProjectsSummary.csv'' \<mapsto>
                  \<lparr>header = [''Project'', ''GOBI''], body = []\<rparr>)\<rparr>)"
proof -
  have ny: "nodes_yaml two_node_world ''./NodeSummary.yaml'' = Some [trangie, narrabri]"
    by (simp add: two_node_world_def)
  show ?thesis
    by (simp add: main_def example_args_def ny NodeChecker_trangie empty_frame_def)
qed

text \<open>
  Claim C5. A node whose project table is empty is skipped and the nodes after it are
  still processed. In the source the empty table executes \<^verbatim>\<open>break\<close>, which ends the
  loop over the nodes: with Trangie (no projects yet) listed before Narrabri, the run ends
  normally after Trangie; no folder of Narrabri is made and its field log keeps the row
  without a checksum.
\<close>

theorem empty_table_stops_run:
  "fst (main example_env example_args two_node_world) = Inr () \<and>
   dirs (snd (main example_env example_args two_node_world)) = [''./Trangie''] \<and>
   \<not> path_exists (snd (main example_env example_args two_node_world)) ''./Narrabri'' \<and>
   csv (snd (main example_env example_args two_node_world)) p1_flog =
     Some \<lparr>header = colnames, body = [june_cells]\<rparr>"
  unfolding main_two_nodes
  by (simp add: path_exists_def is_under_def two_node_world_def narrabri_world_def p1_flog_def)

subsection \<open>The end-to-end scenario\<close>

lemma june_run_paths: "run_paths ''./Narrabri/P1/2024Main_F/M3M/20240601'' [0..<2] =
   [''./Narrabri/P1/2024Main_F/M3M/20240601/run_00/Tier0_raw'',
      ''./Narrabri/P1/2024Main_F/M3M/20240601/run_00/Tier1_proc'',
      ''./Narrabri/P1/2024Main_F/M3M/20240601/run_00/Tier2_traits'',
      ''./Narrabri/P1/2024Main_F/M3M/20240601/run_01/Tier0_raw'',
      ''./Narrabri/P1/2024Main_F/M3M/20240601/run_01/Tier1_proc'',
      ''./Narrabri/P1/2024Main_F/M3M/20240601/run_01/Tier2_traits'']"
  by code_simp

lemma june_dirs:
  "dirs (fold pymkdir (''./Narrabri/P1/2024Main_F/M3M'' #
            run_paths ''./Narrabri/P1/2024Main_F/M3M/20240601'' [0..<2]) site_world) =
     dirs site_world @ june_folders"
  unfolding june_run_paths
  by code_simp

lemma pymkdir_only_dirs: "pymkdir p w = w\<lparr>dirs := dirs (pymkdir p w)\<rparr>"
  by (simp add: pymkdir_def makedirs_def)

lemma fold_pymkdir_only_dirs: "fold pymkdir ps w = w\<lparr>dirs := dirs (fold pymkdir ps w)\<rparr>"
proof (induction ps arbitrary: w)
  case Nil
  then show ?case by simp
next
  case (Cons p ps)
  have "fold pymkdir (p # ps) w = (pymkdir p w)\<lparr>dirs := dirs (fold pymkdir ps (pymkdir p w))\<rparr>"
    using Cons [of "pymkdir p w"] by simp
  also have "\<dots> = w\<lparr>dirs := dirs (fold pymkdir (p # ps) w)\<rparr>"
    by (subst pymkdir_only_dirs) simp
  finally show ?case .
qed

lemma june_world:
  "fold pymkdir (run_paths ''./Narrabri/P1/2024Main_F/M3M/20240601'' [0..<2])
     (pymkdir ''./Narrabri/P1/2024Main_F/M3M'' site_world) =
   site_world\<lparr>dirs := dirs site_world @ june_folders\<rparr>"
proof -
  let ?ps = "''./Narrabri/P1/2024Main_F/M3M'' #
      run_paths ''./Narrabri/P1/2024Main_F/M3M/20240601'' [0..<2]"
  have "fold pymkdir (run_paths ''./Narrabri/P1/2024Main_F/M3M/20240601'' [0..<2])
          (pymkdir ''./Narrabri/P1/2024Main_F/M3M'' site_world) = fold pymkdir ?ps site_world"
    by simp
  also have "\<dots> = site_world\<lparr>dirs := dirs (fold pymkdir ?ps site_world)\<rparr>"
    by (rule fold_pymkdir_only_dirs)
  also have "\<dots> = site_world\<lparr>dirs := dirs site_world @ june_folders\<rparr>"
    by (simp only: june_dirs)
  finally show ?thesis .
qed

lemma june_Rowchecker:
  assumes "Timestamp e ''2024-6-1'' = Inr date" and "date \<le> now e + hours 12"
    and "past \<le> date \<or> h"
  shows "Rowchecker e f june_row p1_row p1_info h past =
           Inr (Some (float_of_nat (check_value e june_row)), main_site)"
proof -
  have dt: "date_text june_row = ''2024-6-1''"
    by (simp add: date_text_def june_row_def str_int_def digits.simps digit_char_def)
  have cc: "config_checks june_row p1_row p1_info = Inr main_site"
    by (simp add: config_checks_def june_row_def p1_row_def p1_info_def main_site_def
        enabled_sensors_def py_eq_def)
  have ty: "check_dtypes june_row = None"
    by (simp add: check_dtypes_def june_row_def)
  have cs: "checksum_state e june_row = Inr (Some (float_of_nat (check_value e june_row)))"
    by (simp add: checksum_state_def june_row_def)
  show ?thesis
    using assms by (auto simp: Rowchecker_def row_checks_def dt cc ty cs date_bounds_def)
qed

lemma june_Sitebuilder:
  "Sitebuilder e p1_flog p1_frame (PyInt 0) june_row (Some c) main_site (PyStr ''P1'') narrabri
     nogit False site_world =
   (Inr (p1_frame\<lparr>cells := [[PyInt 2024, PyInt 6, PyInt 1, PyStr ''M3M'', PyStr ''Tech1'', PyInt 2,
                                 PyStr ''Main'', PyBool False, PyFloat c]]\<rparr>, \<not> nogit),
    site_world
      \<lparr>dirs := dirs site_world @ june_folders,
       csv := (csv site_world)(p1_flog \<mapsto>
                \<lparr>header = colnames,
                 body = [[PyInt 2024, PyInt 6, PyInt 1, PyStr ''M3M'', PyStr ''Tech1'', PyInt 2,
                          PyStr ''Main'', PyBool False, PyFloat c]]\<rparr>),
       staged := (if nogit then [] else [p1_flog])\<rparr>)"
proof -
  have nm: "sitenamemaker main_site [] = Inr ''2024Main_F''"
    by (simp add: sitenamemaker_def in_True_False_def py_eq_def str_int_def digits.simps
        digit_char_def main_site_def)
  have sf: "sensor_folder e narrabri (PyStr ''P1'') ''2024Main_F'' june_row =
              ''./Narrabri/P1/2024Main_F/M3M''"
    by (simp add: sensor_folder_def narrabri_def june_row_def)
  have dn: "day_name june_row = Inr ''20240601''"
    by (simp add: day_name_def june_row_def fmt_02d_def str_int_def digits.simps digit_char_def)
  have rn: "run_numbers e (Runs june_row) = Inr [0..<2]"
    by (simp add: june_row_def np_arange_def)
  have mn: "\<not> py_eq (MakeNotesFile june_row) (PyBool True)"
    by (simp add: june_row_def py_eq_def)
  have ls: "loc_set p1_frame (PyInt 0) ''CheckSum'' (PyFloat c) =
              p1_frame\<lparr>cells := [[PyInt 2024, PyInt 6, PyInt 1, PyStr ''M3M'', PyStr ''Tech1'',
                                      PyInt 2, PyStr ''Main'', PyBool False, PyFloat c]]\<rparr>"
    by (simp add: loc_set_def p1_frame_def colnames_def june_cells_def)
  have st: "staged site_world = []" "touched site_world = []"
    by (simp_all add: site_world_def narrabri_world_def)
  have cols: "columns p1_frame = colnames"
    by (simp add: p1_frame_def)
  show ?thesis
    by (simp add: Sitebuilder_def nm sf dn rn mn ls june_world Let_def to_csv_def to_table_def
        git_add_def st cols path_exists_def)
qed

lemma dirs_node: "dirs (pymkdir ''./Narrabri'' narrabri_world) = [''./Narrabri'']"
  by code_simp

lemma dirs_project:
  "dirs (fold pymkdir [''./Narrabri/P1/Documentation'', ''./Narrabri/P1/Code''] node_world) =
     dirs project_world"
  by code_simp

lemma dirs_site:
  "dirs (fold pymkdir [''./Narrabri/P1/2024Main_F'', ''./Narrabri/P1/2024Main_F/Documentation'',
                       ''./Narrabri/P1/2024Main_F/Code''] project_world) = dirs site_world"
  by code_simp

lemma node_world_eq: "pymkdir ''./Narrabri'' narrabri_world = node_world"
  by (subst pymkdir_only_dirs) (simp add: dirs_node node_world_def)

lemma fold_pymkdir_eval: "dirs (fold pymkdir ps w) = ds \<Longrightarrow> fold pymkdir ps w = w\<lparr>dirs := ds\<rparr>"
  using fold_pymkdir_only_dirs [of ps w] by simp

lemma project_world_eq:
  "pymkdir ''./Narrabri/P1/Code'' (pymkdir ''./Narrabri/P1/Documentation'' node_world) =
     project_world"
proof -
  have "fold pymkdir [''./Narrabri/P1/Documentation'', ''./Narrabri/P1/Code''] node_world =
          node_world\<lparr>dirs := dirs project_world\<rparr>"
    by (rule fold_pymkdir_eval [OF dirs_project])
  also have "\<dots> = project_world"
    by (simp add: node_world_def project_world_def)
  finally show ?thesis by simp
qed

lemma site_world_eq:
  "pymkdir ''./Narrabri/P1/2024Main_F/Code''
     (pymkdir ''./Narrabri/P1/2024Main_F/Documentation''
        (pymkdir ''./Narrabri/P1/2024Main_F'' project_world)) = site_world"
proof -
  have "fold pymkdir [''./Narrabri/P1/2024Main_F'', ''./Narrabri/P1/2024Main_F/Documentation'',
                      ''./Narrabri/P1/2024Main_F/Code''] project_world =
          project_world\<lparr>dirs := dirs site_world\<rparr>"
    by (rule fold_pymkdir_eval [OF dirs_site])
  also have "\<dots> = site_world"
    by (simp add: site_world_def project_world_def)
  finally show ?thesis by simp
qed

lemma narrabri_NodeChecker:
  "NodeChecker e True narrabri False narrabri_world =
     (Inr (\<lparr>index = [PyStr ''P1''], columns = [''GOBI'', ''M3M''],
            cells = [[PyBool False, PyBool True]]\<rparr>, False), node_world)"
proof -
  have nm: "''./'' @ node_name narrabri = ''./Narrabri''"
    by (simp add: narrabri_def)
  have cs: "csv node_world ''./Narrabri/Narrabri_ProjectsSummary.csv'' =
              Some \<lparr>header = [''Project'', ''GOBI'', ''M3M''],
                    body = [[PyStr ''P1'', PyBool False, PyBool True]]\<rparr>"
    by (simp add: node_world_def narrabri_world_def)
  show ?thesis
    unfolding NodeChecker_def nm node_world_eq
    by (simp add: Let_def narrabri_def cs read_csv_index0_def df_col_check_def)
qed

lemma p1_projBuilder:
  "projBuilder e (PyStr ''P1'') narrabri colnames True False node_world =
     (Inr (p1_frame, False, p1_flog, [''2024Main_F''], p1_info), site_world)"
proof -
  have dir: "''./'' @ node_name narrabri @ ''/'' @ py_str e (PyStr ''P1'') = ''./Narrabri/P1''"
    by (simp add: narrabri_def)
  have ym: "yaml node_world ''./Narrabri/P1/ProjectSummary.yaml'' = Some p1_info"
    by (simp add: node_world_def narrabri_world_def)
  have cs: "csv project_world ''./Narrabri/P1/FieldLog.csv'' =
              Some \<lparr>header = colnames, body = [june_cells]\<rparr>"
       "csv node_world ''./Narrabri/P1/FieldLog.csv'' =
              Some \<lparr>header = colnames, body = [june_cells]\<rparr>"
    by (simp_all add: project_world_def node_world_def narrabri_world_def)
  have rd: "read_csv project_world ''./Narrabri/P1/FieldLog.csv'' = Inr p1_frame"
    by (simp add: read_csv_def cs p1_frame_def colnames_def)
  have nm: "sitenamemaker main_site ''./Narrabri/P1/ProjectSummary.yaml'' = Inr ''2024Main_F''"
    by (simp add: sitenamemaker_def in_True_False_def py_eq_def str_int_def digits.simps
        digit_char_def main_site_def)
  have sf: "site_folders ''./Narrabri/P1'' ''./Narrabri/P1/ProjectSummary.yaml'' (sites p1_info) []
              project_world = (Inr [''2024Main_F''], site_world)"
    by (simp add: p1_info_def nm site_world_eq) (simp add: main_site_def)
  have cols: "columns p1_frame = colnames"
    by (simp add: p1_frame_def)
  show ?thesis
    unfolding projBuilder_def dir
    by (simp add: Let_def project_world_eq projYAML_def ym cs rd df_col_check_def cols sf
        p1_flog_def)
qed

lemma main_narrabri:
  assumes "Timestamp e ''2024-6-1'' = Inr date" and "date \<le> now e + hours 12"
    and "default_past_date e \<le> date"
  shows "main e example_args narrabri_world =
           (Inr (),
            site_world
              \<lparr>dirs := dirs site_world @ june_folders,
               csv := (csv site_world)(p1_flog \<mapsto>
                        \<lparr>header = colnames,
                         body = [[PyInt 2024, PyInt 6, PyInt 1, PyStr ''M3M'', PyStr ''Tech1'',
                                  PyInt 2, PyStr ''Main'', PyBool False,
                                  PyFloat (float_of_nat (check_value e june_row))]]\<rparr>),
               staged := []\<rparr>)"
proof -
  have ny: "nodes_yaml narrabri_world ''./NodeSummary.yaml'' = Some [narrabri]"
    by (simp add: narrabri_world_def)
  have it: "iterrows \<lparr>index = [PyStr ''P1''], columns = [''GOBI'', ''M3M''],
                      cells = [[PyBool False, PyBool True]]\<rparr> = [(PyStr ''P1'', p1_row)]"
    by (simp add: iterrows_def p1_row_def)
  have ir: "iterrows p1_frame = [(PyInt 0, series_of june_row)]"
    by (simp add: iterrows_def p1_frame_def series_of_def june_row_def june_cells_def)
  have ne: "\<not> empty_frame p1_frame"
    by (simp add: empty_frame_def p1_frame_def colnames_def)
  have rc: "Rowchecker e p1_flog june_row p1_row p1_info False (default_past_date e) =
              Inr (Some (float_of_nat (check_value e june_row)), main_site)"
    using assms by (intro june_Rowchecker) simp_all
  have rows: "row_loop e example_args p1_flog p1_row p1_info (PyStr ''P1'') narrabri
                [(PyInt 0, series_of june_row)] p1_frame False site_world =
              (Inr (p1_frame\<lparr>cells := [[PyInt 2024, PyInt 6, PyInt 1, PyStr ''M3M'', PyStr ''Tech1'',
                                          PyInt 2, PyStr ''Main'', PyBool False,
                                          PyFloat (float_of_nat (check_value e june_row))]]\<rparr>, False),
               site_world
                 \<lparr>dirs := dirs site_world @ june_folders,
                  csv := (csv site_world)(p1_flog \<mapsto>
                           \<lparr>header = colnames,
                            body = [[PyInt 2024, PyInt 6, PyInt 1, PyStr ''M3M'', PyStr ''Tech1'',
                                     PyInt 2, PyStr ''Main'', PyBool False,
                                     PyFloat (float_of_nat (check_value e june_row))]]\<rparr>),
                  staged := []\<rparr>)"
    by (simp add: fieldrow_of_series_of example_args_def rc june_Sitebuilder)
  have projects: "project_loop e example_args narrabri [(PyStr ''P1'', p1_row)] False node_world =
              (Inr False,
               site_world
                 \<lparr>dirs := dirs site_world @ june_folders,
                  csv := (csv site_world)(p1_flog \<mapsto>
                           \<lparr>header = colnames,
                            body = [[PyInt 2024, PyInt 6, PyInt 1, PyStr ''M3M'', PyStr ''Tech1'',
                                     PyInt 2, PyStr ''Main'', PyBool False,
                                     PyFloat (float_of_nat (check_value e june_row))]]\<rparr>),
                  staged := []\<rparr>)"
    using rows p1_projBuilder [of e] ne ir
    by (simp add: example_args_def)
  have ne2: "\<not> empty_frame \<lparr>index = [PyStr ''P1''], columns = [''GOBI'', ''M3M''],
                              cells = [[PyBool False, PyBool True]]\<rparr>"
    by (simp add: empty_frame_def)
  have nodes: "node_loop e example_args [narrabri] False narrabri_world =
              (Inr False,
               site_world
                 \<lparr>dirs := dirs site_world @ june_folders,
                  csv := (csv site_world)(p1_flog \<mapsto>
                           \<lparr>header = colnames,
                            body = [[PyInt 2024, PyInt 6, PyInt 1, PyStr ''M3M'', PyStr ''Tech1'',
                                     PyInt 2, PyStr ''Main'', PyBool False,
                                     PyFloat (float_of_nat (check_value e june_row))]]\<rparr>),
                  staged := []\<rparr>)"
    using projects narrabri_NodeChecker [of e] ne2 it
    by (simp add: example_args_def)
  have ar: "no_git example_args" "projectsYAML example_args = ''./NodeSummary.yaml''"
    by (simp_all add: example_args_def)
  show ?thesis
    by (simp add: main_def ar ny nodes del: node_loop.simps)
qed

lemma main_example:
  "main example_env example_args narrabri_world =
     (Inr (),
      site_world
        \<lparr>dirs := dirs site_world @ june_folders,
         csv := (csv site_world)(p1_flog \<mapsto>
                  \<lparr>header = colnames,
                   body = [[PyInt 2024, PyInt 6, PyInt 1, PyStr ''M3M'', PyStr ''Tech1'',
                            PyInt 2, PyStr ''Main'', PyBool False,
                            PyFloat (float_of_nat (check_value example_env june_row))]]\<rparr>),
         staged := []\<rparr>)"
  by (rule main_narrabri [of example_env "days 19875"])
     (simp_all add: example_env_def default_past_date_def days_def hours_def)

text \<open>
  Claim C4, as stated: in the end-to-end scenario the day folder is named \<open>240601\<close>. The
  format \<^verbatim>\<open>{frow.Year:02d}\<close> pads to two digits and cuts nothing off: the run makes
  \<open>20240601\<close>, and no folder \<open>240601\<close> exists afterwards.
\<close>

theorem scenario_day_folder_counterexample:
  "\<not> path_exists (snd (main example_env example_args narrabri_world))
       ''./Narrabri/P1/2024Main_F/M3M/240601/run_00/Tier0_raw'' \<and>
   path_exists (snd (main example_env example_args narrabri_world))
     ''./Narrabri/P1/2024Main_F/M3M/20240601/run_00/Tier0_raw''"
proof -
  have a: "\<not> (\<exists>q \<in> set (dirs site_world @ june_folders).
                 is_under ''./Narrabri/P1/2024Main_F/M3M/240601/run_00/Tier0_raw'' q)"
    by code_simp
  have b: "\<exists>q \<in> set (dirs site_world @ june_folders).
             is_under ''./Narrabri/P1/2024Main_F/M3M/20240601/run_00/Tier0_raw'' q"
    by code_simp
  show ?thesis
    unfolding main_example using a b by (simp add: path_exists_def)
qed

text \<open>
  Claim C4, amended. In the end-to-end scenario, run without git on a day for which the
  date of the row is within the temporal bounds, the run ends normally; the folders made
  are, in this order, those of the node, the project and the site, the sensor folder, the
  day folder \<open>20240601\<close> (the year in full, then month and day on two digits) and under it
  \<open>run_00\<close> and \<open>run_01\<close>, each with the three tier folders, and no others; no notes file
  is touched; and the checksum of the row in the field log is the recomputed checksum, an
  integral float below \<open>10^8\<close>.
\<close>

theorem scenario_folders:
  assumes "Timestamp e ''2024-6-1'' = Inr date" and "date \<le> now e + hours 12"
    and "default_past_date e \<le> date"
  shows "fst (main e example_args narrabri_world) = Inr () \<and>
         dirs (snd (main e example_args narrabri_world)) =
           [''./Narrabri'', ''./Narrabri/P1'', ''./Narrabri/P1/Documentation'',
            ''./Narrabri/P1/Code'', ''./Narrabri/P1/2024Main_F'',
            ''./Narrabri/P1/2024Main_F/Documentation'', ''./Narrabri/P1/2024Main_F/Code'',
            ''./Narrabri/P1/2024Main_F/M3M'',
            ''./Narrabri/P1/2024Main_F/M3M/20240601'',
            ''./Narrabri/P1/2024Main_F/M3M/20240601/run_00'',
            ''./Narrabri/P1/2024Main_F/M3M/20240601/run_00/Tier0_raw'',
            ''./Narrabri/P1/2024Main_F/M3M/20240601/run_00/Tier1_proc'',
            ''./Narrabri/P1/2024Main_F/M3M/20240601/run_00/Tier2_traits'',
            ''./Narrabri/P1/2024Main_F/M3M/20240601/run_01'',
            ''./Narrabri/P1/2024Main_F/M3M/20240601/run_01/Tier0_raw'',
            ''./Narrabri/P1/2024Main_F/M3M/20240601/run_01/Tier1_proc'',
            ''./Narrabri/P1/2024Main_F/M3M/20240601/run_01/Tier2_traits''] \<and>
         touched (snd (main e example_args narrabri_world)) = [] \<and>
         csv (snd (main e example_args narrabri_world)) ''./Narrabri/P1/FieldLog.csv'' =
           Some \<lparr>header = colnames,
                 body = [[PyInt 2024, PyInt 6, PyInt 1, PyStr ''M3M'', PyStr ''Tech1'', PyInt 2,
                          PyStr ''Main'', PyBool False,
                          PyFloat (Fin (of_nat (check_value e june_row)))]]\<rparr> \<and>
         check_value e june_row < 100000000"
  unfolding main_narrabri [OF assms]
  by (simp add: site_world_def narrabri_world_def june_folders_def p1_flog_def float_of_nat_def
      check_value_def)

theorem scenario_folders_witness:
  "Timestamp example_env ''2024-6-1'' = Inr (days 19875) \<and>
   days 19875 \<le> now example_env + hours 12 \<and>
   default_past_date example_env \<le> days 19875 \<and>
   fst (main example_env example_args narrabri_world) = Inr () \<and>
   touched (snd (main example_env example_args narrabri_world)) = [] \<and>
   csv (snd (main example_env example_args narrabri_world)) ''./Narrabri/P1/FieldLog.csv'' =
     Some \<lparr>header = colnames,
           body = [[PyInt 2024, PyInt 6, PyInt 1, PyStr ''M3M'', PyStr ''Tech1'', PyInt 2,
                    PyStr ''Main'', PyBool False, PyFloat (Fin 62004176)]]\<rparr>"
proof -
  have a: "Timestamp example_env ''2024-6-1'' = Inr (days 19875)"
    by (simp add: example_env_def)
  have b: "days 19875 \<le> now example_env + hours 12"
    by (simp add: example_env_def days_def hours_def)
  have c: "default_past_date example_env \<le> days 19875"
    by (simp add: example_env_def default_past_date_def days_def hours_def)
  have d: "check_value example_env june_row = 62004176"
    by (simp add: example_env_def june_row_def check_value_def drop_CheckSum_def)
  from scenario_folders [OF a b c] a b c show ?thesis
    by (simp add: d)
qed




subsection \<open>The schema reconciler\<close>

lemma filter_eq_single: "distinct xs \<Longrightarrow> c \<in> set xs \<Longrightarrow> filter (\<lambda>n. n = c) xs = [c]"
  by (induction xs) (auto simp: filter_empty_conv)

lemma filter_key_none:
  "map_of ps c = None \<Longrightarrow> filter (\<lambda>(n, x). n = c) ps = []"
  by (induction ps) (auto split: if_splits)

lemma filter_key_single:
  "distinct (map fst ps) \<Longrightarrow> map_of ps c = Some v \<Longrightarrow>
     map snd (filter (\<lambda>(n, x). n = c) ps) = [v]"
proof (induction ps)
  case Nil
  then show ?case by simp
next
  case (Cons p ps)
  obtain n x where p: "p = (n, x)" by (cases p)
  show ?case
  proof (cases "n = c")
    case True
    with Cons.prems p have "map_of ps c = None"
      by (auto simp: map_of_eq_None_iff)
    with True Cons.prems p show ?thesis
      by (simp add: filter_key_none)
  next
    case False
    with Cons p show ?thesis by simp
  qed
qed

lemma fold_setitem:
  "distinct ms \<Longrightarrow> set ms \<inter> set (columns d) = {} \<Longrightarrow>
     fold (\<lambda>col d. setitem d col v) ms d =
       d\<lparr>columns := columns d @ ms, cells := map (\<lambda>r. r @ replicate (length ms) v) (cells d)\<rparr>"
proof (induction ms arbitrary: d)
  case Nil
  then show ?case by simp
next
  case (Cons m ms)
  let ?d = "setitem d m v"
  have d: "?d = d\<lparr>columns := columns d @ [m], cells := map (\<lambda>r. r @ [v]) (cells d)\<rparr>"
    using Cons.prems by (simp add: setitem_def)
  have "set ms \<inter> set (columns ?d) = {}"
    using Cons.prems by (auto simp: d)
  with Cons.IH [of ?d] Cons.prems
  have "fold (\<lambda>col d. setitem d col v) ms ?d =
          ?d\<lparr>columns := columns ?d @ ms, cells := map (\<lambda>r. r @ replicate (length ms) v) (cells ?d)\<rparr>"
    by simp
  then show ?case
    by (simp add: d replicate_append_same)
qed

lemma missing_cols_props:
  "distinct (missing_cols d colnms)"
  "set (missing_cols d colnms) \<inter> set (columns d) = {}"
  "set colnms \<subseteq> set (columns d) \<union> set (missing_cols d colnms)"
  by (auto simp: missing_cols_def)

lemma select_row_eval:
  assumes dist: "distinct (cols @ ms)" and len: "length r = length cols"
    and sub: "set colnms \<subseteq> set cols \<union> set ms"
  shows "select_row (cols @ ms) colnms (r @ replicate (length ms) v) =
           map (\<lambda>c. case map_of (zip cols r) c of Some x \<Rightarrow> x | None \<Rightarrow> v) colnms"
proof -
  let ?ps = "zip (cols @ ms) (r @ replicate (length ms) v)"
  have ps: "?ps = zip cols r @ zip ms (replicate (length ms) v)"
    using len by simp
  have fst: "map fst ?ps = cols @ ms"
    using len by simp
  have one: "map snd (filter (\<lambda>(n, x). n = c) ?ps) =
               [case map_of (zip cols r) c of Some x \<Rightarrow> x | None \<Rightarrow> v]" if "c \<in> set colnms" for c
  proof (cases "c \<in> set cols")
    case True
    with len obtain x where x: "map_of (zip cols r) c = Some x"
      by (metis map_of_zip_is_Some not_Some_eq)
    then have "map_of ?ps c = Some x" by (simp add: ps)
    with dist fst have "map snd (filter (\<lambda>(n, x). n = c) ?ps) = [x]"
      by (intro filter_key_single) simp_all
    with x show ?thesis by simp
  next
    case False
    with that sub have ms: "c \<in> set ms" by auto
    from False len have none: "map_of (zip cols r) c = None"
      by (simp add: map_of_zip_is_None)
    from ms have "map_of (zip ms (replicate (length ms) v)) c = Some v"
      by (induction ms) auto
    with none have "map_of ?ps c = Some v" by (simp add: ps map_add_def)
    with dist fst have "map snd (filter (\<lambda>(n, x). n = c) ?ps) = [v]"
      by (intro filter_key_single) simp_all
    with none show ?thesis by simp
  qed
  have "select_row (cols @ ms) colnms (r @ replicate (length ms) v) =
          concat (map (\<lambda>c. [case map_of (zip cols r) c of Some x \<Rightarrow> x | None \<Rightarrow> v]) colnms)"
    unfolding select_row_def using one by (intro arg_cong [where f = concat] map_cong) simp_all
  also have "\<dots> = map (\<lambda>c. case map_of (zip cols r) c of Some x \<Rightarrow> x | None \<Rightarrow> v) colnms"
    by (induction colnms) simp_all
  finally show ?thesis .
qed

lemma reconcile_shape:
  assumes dist: "distinct (columns d)"
    and rect: "\<forall>r \<in> set (cells d). length r = length (columns d)"
  shows "getitem (fold (\<lambda>col d. setitem d col v) (missing_cols d colnms) d) colnms =
           d\<lparr>columns := colnms,
             cells := map (\<lambda>r. map (\<lambda>c. case map_of (zip (columns d) r) c of
                                             Some x \<Rightarrow> x | None \<Rightarrow> v) colnms) (cells d)\<rparr>"
proof -
  let ?ms = "missing_cols d colnms"
  let ?cols = "columns d"
  have all: "distinct (?cols @ ?ms)"
    using dist missing_cols_props(1,2) [of d colnms] by auto
  have sub: "set colnms \<subseteq> set ?cols \<union> set ?ms"
    by (rule missing_cols_props(3))
  have cols: "concat (map (\<lambda>c. filter (\<lambda>n. n = c) (?cols @ ?ms)) colnms) = colnms"
  proof -
    have "concat (map (\<lambda>c. filter (\<lambda>n. n = c) (?cols @ ?ms)) colnms) =
            concat (map (\<lambda>c. [c]) colnms)"
      using sub all
      by (intro arg_cong [where f = concat] map_cong refl filter_eq_single) auto
    also have "\<dots> = colnms" by (induction colnms) simp_all
    finally show ?thesis .
  qed
  have rows: "map (select_row (?cols @ ?ms) colnms) (map (\<lambda>r. r @ replicate (length ?ms) v) (cells d)) =
                map (\<lambda>r. map (\<lambda>c. case map_of (zip ?cols r) c of Some x \<Rightarrow> x | None \<Rightarrow> v) colnms)
                    (cells d)"
    using rect all sub by (simp add: select_row_eval)
  have f: "fold (\<lambda>col d. setitem d col v) ?ms d =
             d\<lparr>columns := ?cols @ ?ms, cells := map (\<lambda>r. r @ replicate (length ?ms) v) (cells d)\<rparr>"
    using missing_cols_props(1,2) [of d colnms] by (rule fold_setitem)
  have g: "getitem (d\<lparr>columns := ?cols @ ?ms, cells := C\<rparr>) colnms =
             d\<lparr>columns := concat (map (\<lambda>c. filter (\<lambda>n. n = c) (?cols @ ?ms)) colnms),
               cells := map (select_row (?cols @ ?ms) colnms) C\<rparr>" for C
    by (simp add: getitem_def)
  show ?thesis
    by (simp only: f g cols rows)
qed

lemma lookup_self:
  "distinct xs \<Longrightarrow> length xs = length ys \<Longrightarrow>
     map (\<lambda>c. case map_of (zip xs ys) c of Some x \<Rightarrow> x | None \<Rightarrow> v) xs = ys"
proof (induction xs ys rule: list_induct2')
  case (4 x xs y ys)
  have "map (\<lambda>c. case map_of (zip (x # xs) (y # ys)) c of Some x \<Rightarrow> x | None \<Rightarrow> v) xs =
          map (\<lambda>c. case map_of (zip xs ys) c of Some x \<Rightarrow> x | None \<Rightarrow> v) xs"
    using 4(2) by (intro map_cong) auto
  with 4 show ?case by simp
qed simp_all

text \<open>
  Claim C7. For a table with distinct column names and full rows (what \<^verbatim>\<open>pd.read_csv\<close>
  yields) and any list of required columns, the reconciled table has exactly the required
  columns in their order; each row holds, for a required column the table had, the cell it
  had, and for a missing one the default; when the columns differed the file is rewritten
  with that table, otherwise nothing is written. Reconciling the result again with the
  same columns and default returns the same table and writes no file or folder; without
  git it changes nothing at all.
\<close>

theorem reconcile_columns:
  assumes dist: "distinct (columns dfx)"
    and rect: "\<forall>r \<in> set (cells dfx). length r = length (columns dfx)"
    and one: "df_col_check e dfx fname colnms nogit gitmod fill w = ((d1, g1), w1)"
    and two: "df_col_check e d1 fname colnms nogit g1 fill w1 = ((d2, g2), w2)"
  shows "columns d1 = colnms \<and> index d1 = index dfx \<and>
         cells d1 = map (\<lambda>r. map (\<lambda>c. case map_of (zip (columns dfx) r) c of
                                         Some x \<Rightarrow> x | None \<Rightarrow> fill) colnms) (cells dfx) \<and>
         (columns dfx \<noteq> colnms \<longrightarrow> csv w1 = (csv w)(fname \<mapsto> \<lparr>header = colnms, body = cells d1\<rparr>)) \<and>
         (columns dfx = colnms \<longrightarrow> d1 = dfx \<and> csv w1 = csv w) \<and>
         d2 = d1 \<and> csv w2 = csv w1 \<and> dirs w2 = dirs w1 \<and> touched w2 = touched w1 \<and>
         yaml w2 = yaml w1 \<and> (nogit \<longrightarrow> w2 = w1 \<and> g2 = g1)"
proof -
  let ?new = "dfx\<lparr>columns := colnms,
                  cells := map (\<lambda>r. map (\<lambda>c. case map_of (zip (columns dfx) r) c of
                                                  Some x \<Rightarrow> x | None \<Rightarrow> fill) colnms) (cells dfx)\<rparr>"
  have d1: "d1 = (if columns dfx \<noteq> colnms then ?new else dfx)"
    using one by (auto simp: df_col_check_def Let_def reconcile_shape [OF dist rect]
        split: if_splits)
  have same: "?new = dfx" if "columns dfx = colnms"
  proof -
    have "map (\<lambda>r. map (\<lambda>c. case map_of (zip (columns dfx) r) c of
                               Some x \<Rightarrow> x | None \<Rightarrow> fill) (columns dfx)) (cells dfx) = cells dfx"
      using rect dist by (intro map_idI lookup_self) auto
    with that show ?thesis by simp
  qed
  have shape: "d1 = ?new"
    using d1 same by auto
  have w1: "columns dfx \<noteq> colnms \<longrightarrow> csv w1 = (csv w)(fname \<mapsto> \<lparr>header = colnms, body = cells d1\<rparr>)"
    using one shape
    by (auto simp: df_col_check_def Let_def reconcile_shape [OF dist rect] to_csv_def to_table_def
        git_add_def split: if_splits)
  have w1': "columns dfx = colnms \<longrightarrow> d1 = dfx \<and> csv w1 = csv w"
    using one by (auto simp: df_col_check_def Let_def git_add_def split: if_splits)
  have c1: "columns d1 = colnms" using shape by simp
  have second: "d2 = d1 \<and> csv w2 = csv w1 \<and> dirs w2 = dirs w1 \<and> touched w2 = touched w1 \<and>
                yaml w2 = yaml w1 \<and> (nogit \<longrightarrow> w2 = w1 \<and> g2 = g1)"
    using two c1 by (auto simp: df_col_check_def Let_def git_add_def split: if_splits)
  show ?thesis
    using shape w1 w1' second by simp
qed

theorem reconcile_columns_witness:
  "distinct (columns c_frame) \<and> map length (cells c_frame) = [length (columns c_frame)] \<and>
   df_col_check example_env c_frame ''t.csv'' [''A'', ''B'', ''C''] True False (PyBool False)
     empty_world = ((abc_frame, False), to_csv abc_frame ''t.csv'' empty_world) \<and>
   df_col_check example_env abc_frame ''t.csv'' [''A'', ''B'', ''C''] True False (PyBool False)
     (to_csv abc_frame ''t.csv'' empty_world) =
     ((abc_frame, False), to_csv abc_frame ''t.csv'' empty_world) \<and>
   columns abc_frame = [''A'', ''B'', ''C''] \<and>
   cells abc_frame = [[PyBool False, PyBool False, PyInt 7]]"
proof -
  have a: "distinct (columns c_frame)"
    by (simp add: c_frame_def)
  have b: "\<forall>r \<in> set (cells c_frame). length r = length (columns c_frame)"
    by (simp add: c_frame_def)
  have c: "df_col_check example_env c_frame ''t.csv'' [''A'', ''B'', ''C''] True False
             (PyBool False) empty_world = ((abc_frame, False), to_csv abc_frame ''t.csv'' empty_world)"
    by (simp add: df_col_check_def missing_cols_def setitem_def getitem_def select_row_def
        c_frame_def abc_frame_def Let_def)
  have d: "df_col_check example_env abc_frame ''t.csv'' [''A'', ''B'', ''C''] True False
             (PyBool False) (to_csv abc_frame ''t.csv'' empty_world) =
           ((abc_frame, False), to_csv abc_frame ''t.csv'' empty_world)"
    by (simp add: df_col_check_def abc_frame_def Let_def)
  have b': "map length (cells c_frame) = [length (columns c_frame)]"
    by (simp add: c_frame_def)
  from reconcile_columns [OF a b c d] a b' c d show ?thesis
    by (simp add: abc_frame_def)
qed

end
